theory Spec2Isabelle
  imports Main "HOL-Library.Sublist" "HOL-Library.Multiset"
begin

section \<open>Text\<close>

text \<open>
  A Python \<open>str\<close> is a sequence of Unicode code points, so file contents are lists of
  code points (\<open>nat\<close>).  \<open>str\<close> turns a literal of the script into such a list.
  Path names and error messages only ever come from the static table or from the
  environment and are kept as \<open>string\<close>.
\<close>

type_synonym pystr = "nat list"

definition str :: "string \<Rightarrow> pystr" where
  "str s = map of_char s"

definition OLD_PACKAGE :: pystr where
  "OLD_PACKAGE = str ''com.CarSelling.Sell.the.old.Car''"

definition NEW_PACKAGE :: pystr where
  "NEW_PACKAGE = str ''com.carselling.oldcar''"

text \<open>
  The class \<open>\s\<close> of a \<open>str\<close> pattern: the code points for which
  \<open>str.isspace\<close> holds.
\<close>

definition is_space :: "nat \<Rightarrow> bool" where
  "is_space c =
     ((9 \<le> c \<and> c \<le> 13) \<or> (28 \<le> c \<and> c \<le> 32) \<or> c = 133 \<or> c = 160 \<or> c = 5760
      \<or> (8192 \<le> c \<and> c \<le> 8202) \<or> c = 8232 \<or> c = 8233 \<or> c = 8239 \<or> c = 8287
      \<or> c = 12288)"

text \<open>The class \<open>[a-zA-Z0-9_.]\<close>.\<close>

definition is_pkg_char :: "nat \<Rightarrow> bool" where
  "is_pkg_char c =
     ((97 \<le> c \<and> c \<le> 122) \<or> (65 \<le> c \<and> c \<le> 90) \<or> (48 \<le> c \<and> c \<le> 57)
      \<or> c = 95 \<or> c = 46)"

section \<open>Regular expressions of the script\<close>

text \<open>
  The three patterns are sequences of literals, greedy \<open>+\<close> repetitions of a character
  class and one optional group.  Each piece is a matcher in continuation-passing style:
  it consumes a prefix of the text and hands the rest to the continuation; when the
  continuation fails, a greedy repetition gives characters back one at a time, and the
  optional group is retried as absent, as the backtracking engine of \<open>re\<close> does.
\<close>

definition lit :: "pystr \<Rightarrow> (pystr \<Rightarrow> 'a option) \<Rightarrow> pystr \<Rightarrow> 'a option" where
  "lit w k s = (if prefix w s then k (drop (length w) s) else None)"

fun plus_class :: "(nat \<Rightarrow> bool) \<Rightarrow> (pystr \<Rightarrow> pystr \<Rightarrow> 'a option) \<Rightarrow> pystr \<Rightarrow> pystr \<Rightarrow> 'a option" where
  "plus_class cls k acc [] = None"
| "plus_class cls k acc (c # cs) =
     (if cls c then
        (case plus_class cls k (acc @ [c]) cs of
           Some r \<Rightarrow> Some r
         | None \<Rightarrow> k (acc @ [c]) cs)
      else None)"

text \<open>
  \<open>package\s+com\.CarSelling\.Sell\.the\.old\.Car(\.[a-zA-Z0-9_.]+)?;\<close> tried at the
  start of the text: the value of group 1 (\<open>None\<close> when the group did not take part)
  and the text after the match.
\<close>

definition match_package :: "pystr \<Rightarrow> (pystr option \<times> pystr) option" where
  "match_package =
     lit (str ''package'') (plus_class is_space (\<lambda>_. lit OLD_PACKAGE (\<lambda>s3.
       (case lit (str ''.'') (plus_class is_pkg_char (\<lambda>g. lit (str '';'')
                   (\<lambda>s6. Some (Some (str ''.'' @ g), s6))) []) s3 of
          Some r \<Rightarrow> Some r
        | None \<Rightarrow> lit (str '';'') (\<lambda>s6. Some (None, s6)) s3))) [])"

text \<open>The replacement function given to \<open>re.sub\<close> for the package pattern.\<close>

definition package_repl :: "pystr option \<Rightarrow> pystr" where
  "package_repl g =
     str ''package '' @ NEW_PACKAGE @ (case g of Some t \<Rightarrow> (if t \<noteq> [] then t else []) | None \<Rightarrow> [])
       @ str '';''"

definition package_rule :: "pystr \<Rightarrow> (pystr \<times> pystr) option" where
  "package_rule s = map_option (\<lambda>(g, rest). (package_repl g, rest)) (match_package s)"

text \<open>\<open>import\s+com\.CarSelling\.Sell\.the\.old\.Car\<close>, replaced by a fixed text.\<close>

definition match_import :: "pystr \<Rightarrow> pystr option" where
  "match_import =
     lit (str ''import'') (plus_class is_space (\<lambda>_. lit OLD_PACKAGE Some) [])"

definition import_rule :: "pystr \<Rightarrow> (pystr \<times> pystr) option" where
  "import_rule s = map_option (\<lambda>rest. (str ''import '' @ NEW_PACKAGE, rest)) (match_import s)"

text \<open>\<open>import\s+static\s+com\.CarSelling\.Sell\.the\.old\.Car\<close>.\<close>

definition match_static_import :: "pystr \<Rightarrow> pystr option" where
  "match_static_import =
     lit (str ''import'') (plus_class is_space (\<lambda>_. lit (str ''static'')
       (plus_class is_space (\<lambda>_. lit OLD_PACKAGE Some) [])) [])"

definition static_import_rule :: "pystr \<Rightarrow> (pystr \<times> pystr) option" where
  "static_import_rule s =
     map_option (\<lambda>rest. (str ''import static '' @ NEW_PACKAGE, rest)) (match_static_import s)"

text \<open>
  \<open>re.sub\<close>: scan from the left; where the rule matches, emit the replacement and go on
  after the match, otherwise copy one character.  The rule gives the replacement and the
  text after the match.  None of the three patterns matches the empty string, so the
  special treatment of empty matches never applies; a rule that consumed nothing is
  treated as no match.
\<close>

function re_sub :: "(pystr \<Rightarrow> (pystr \<times> pystr) option) \<Rightarrow> pystr \<Rightarrow> pystr" where
  "re_sub m [] = []"
| "re_sub m (c # cs) =
     (case m (c # cs) of
        Some (repl, rest) \<Rightarrow>
          if length rest \<le> length cs then repl @ re_sub m rest else c # re_sub m cs
      | None \<Rightarrow> c # re_sub m cs)"
  by pat_completeness auto
termination
  by (relation "measure (\<lambda>(m, s). length s)") auto

section \<open>Literal replacement\<close>

text \<open>
  \<open>str.replace(old, new)\<close>: all non-overlapping occurrences, found from the left.
  With an empty \<open>old\<close>, Python puts \<open>new\<close> before every character and at the end.
\<close>

function replace :: "pystr \<Rightarrow> pystr \<Rightarrow> pystr \<Rightarrow> pystr" where
  "replace old new [] = (if old = [] then new else [])"
| "replace old new (c # cs) =
     (if old = [] then new @ c # replace old new cs
      else if prefix old (c # cs) then new @ replace old new (drop (length old) (c # cs))
      else c # replace old new cs)"
  by pat_completeness auto
termination
  by (relation "measure (\<lambda>(old, new, s). length s)") (auto simp: neq_Nil_conv)

text \<open>The operator \<open>in\<close> on strings.\<close>

fun contains :: "pystr \<Rightarrow> pystr \<Rightarrow> bool" where
  "contains sub [] = (sub = [])"
| "contains sub (c # cs) = (prefix sub (c # cs) \<or> contains sub cs)"

text \<open>The dictionary \<open>replacements\<close>, in insertion order, which is the order of iteration.\<close>

definition replacements :: "(pystr \<times> pystr) list" where
  "replacements =
     [(NEW_PACKAGE @ str ''.model.'', NEW_PACKAGE @ str ''.entity.''),
      (NEW_PACKAGE @ str ''.dto.UserDTO.'', NEW_PACKAGE @ str ''.dto.auth.''),
      (NEW_PACKAGE @ str ''.dto.CarDTO.'', NEW_PACKAGE @ str ''.dto.car.''),
      (NEW_PACKAGE @ str ''.security.AuthPayload'', NEW_PACKAGE @ str ''.dto.auth.AuthPayload''),
      (NEW_PACKAGE @ str ''.security.jwt.JwtAuthResponse'',
       NEW_PACKAGE @ str ''.dto.auth.JwtAuthResponse'')]"

definition apply_replacements :: "(pystr \<times> pystr) list \<Rightarrow> pystr \<Rightarrow> pystr" where
  "apply_replacements rules content = fold (\<lambda>(old, new) c. replace old new c) rules content"

section \<open>The content rewrite\<close>

definition update_package_and_imports :: "pystr \<Rightarrow> string list \<Rightarrow> pystr" where
  "update_package_and_imports content file_path =
     (let content = re_sub package_rule content;
          content = re_sub import_rule content;
          content = re_sub static_import_rule content;
          content = apply_replacements replacements content
      in if contains (str ''SellTheOldCarApplication'') content
         then replace (str ''SellTheOldCarApplication'') (str ''OldCarApplication'') content
         else content)"

section \<open>Paths\<close>

text \<open>
  A \<open>Path\<close> is the list of its components.  \<open>/\<close> appends the components of a relative
  path written with forward slashes; empty components are dropped, as \<open>pathlib\<close> does.
\<close>

type_synonym path = "string list"

fun parts_from :: "string \<Rightarrow> string \<Rightarrow> string list" where
  "parts_from acc [] = (if acc = [] then [] else [acc])"
| "parts_from acc (c # cs) =
     (if c = CHR ''/'' then (if acc = [] then parts_from [] cs else acc # parts_from [] cs)
      else parts_from (acc @ [c]) cs)"

definition joinpath :: "path \<Rightarrow> string \<Rightarrow> path" where
  "joinpath p rel = p @ parts_from [] rel"

definition path_name :: "path \<Rightarrow> string" where
  "path_name p = (if p = [] then [] else last p)"

definition BASE_DIR :: path where
  "BASE_DIR = [''D:'', ''Startup'', ''Car Frontend Backend'', ''Sell-the-old-Car'']"

definition OLD_SRC :: path where
  "OLD_SRC = BASE_DIR @ [''src'', ''main'', ''java'', ''com'', ''CarSelling'', ''Sell'', ''the'', ''old'', ''Car'']"

definition NEW_SRC :: path where
  "NEW_SRC = BASE_DIR @ [''src'', ''main'', ''java'', ''com'', ''carselling'', ''oldcar'']"

definition OLD_TEST :: path where
  "OLD_TEST = BASE_DIR @ [''src'', ''test'', ''java'', ''com'', ''CarSelling'', ''Sell'', ''the'', ''old'', ''Car'']"

definition NEW_TEST :: path where
  "NEW_TEST = BASE_DIR @ [''src'', ''test'', ''java'', ''com'', ''carselling'', ''oldcar'']"

text \<open>The dictionary \<open>FILE_MAPPINGS\<close>, in insertion order.\<close>

definition FILE_MAPPINGS :: "(string \<times> string) list" where
  "FILE_MAPPINGS =
  [(''SellTheOldCarApplication.java'', ''OldCarApplication.java''),
   (''config/CorsConfig.java'', ''config/CorsConfig.java''),
   (''config/ScheduledTasks.java'', ''config/ScheduledTasks.java''),
   (''config/WebSocketConfig.java'', ''config/WebSocketConfig.java''),
   (''config/WebSocketEventListener.java'', ''config/WebSocketEventListener.java''),
   (''controller/AuthController.java'', ''controller/auth/AuthController.java''),
   (''controller/Car/CarController.java'', ''controller/car/CarController.java''),
   (''controller/Car/SecureCarController.java'', ''controller/car/SecureCarController.java''),
   (''controller/CarManagementController.java'', ''controller/car/CarManagementController.java''),
   (''controller/User/UserController.java'', ''controller/user/UserController.java''),
   (''controller/SellerController.java'', ''controller/dealer/SellerController.java''),
   (''controller/chat/ChatController.java'', ''controller/chat/ChatController.java''),
   (''controller/chat/ChatRestController.java'', ''controller/chat/ChatRestController.java''),
   (''controller/chat/ChatWebSocketController.java'', ''controller/chat/ChatWebSocketController.java''),
   (''security/AuthPayload.java'', ''dto/auth/AuthPayload.java''),
   (''security/jwt/JwtAuthResponse.java'', ''dto/auth/JwtAuthResponse.java''),
   (''dto/UserDTO/LoginRequest.java'', ''dto/auth/LoginRequest.java''),
   (''dto/UserDTO/LoginInput.java'', ''dto/auth/LoginInput.java''),
   (''dto/UserDTO/RegisterRequest.java'', ''dto/auth/RegisterRequest.java''),
   (''dto/UserDTO/ForgotPasswordRequest.java'', ''dto/auth/ForgotPasswordRequest.java''),
   (''dto/UserDTO/ResetPasswordRequest.java'', ''dto/auth/ResetPasswordRequest.java''),
   (''dto/UserDTO/RefreshTokenRequest.java'', ''dto/auth/RefreshTokenRequest.java''),
   (''dto/UserDTO/UpdateUserInput.java'', ''dto/user/UpdateUserInput.java''),
   (''dto/UserPage.java'', ''dto/user/UserPage.java''),
   (''dto/CarDTO/CarInput.java'', ''dto/car/CarInput.java''),
   (''dto/CarDTO/UpdateCarInput.java'', ''dto/car/UpdateCarInput.java''),
   (''dto/CarDTO/CarResponseDTO.java'', ''dto/car/CarResponseDTO.java''),
   (''model/User.java'', ''entity/User.java''),
   (''model/Car.java'', ''entity/Car.java''),
   (''model/Role.java'', ''entity/Role.java''),
   (''model/Permission.java'', ''entity/Permission.java''),
   (''model/SellerType.java'', ''entity/SellerType.java''),
   (''model/OtpToken.java'', ''entity/OtpToken.java''),
   (''model/Chat.java'', ''entity/chat/Chat.java''),
   (''model/ChatParticipant.java'', ''entity/chat/ChatParticipant.java''),
   (''model/Message.java'', ''entity/chat/Message.java''),
   (''model/MessageStatus.java'', ''entity/chat/MessageStatus.java''),
   (''model/UserStatus.java'', ''entity/chat/UserStatus.java''),
   (''model/chat/Chat.java'', ''entity/chat/Chat.java''),
   (''model/chat/ChatParticipant.java'', ''entity/chat/ChatParticipant.java''),
   (''model/chat/Message.java'', ''entity/chat/Message.java''),
   (''model/chat/MessageStatus.java'', ''entity/chat/MessageStatus.java''),
   (''model/chat/UserStatus.java'', ''entity/chat/UserStatus.java''),
   (''exception/GlobalExceptionHandler.java'', ''exception/GlobalExceptionHandler.java''),
   (''exception/ResourceNotFoundException.java'', ''exception/ResourceNotFoundException.java''),
   (''exception/ResourceAlreadyExistsException.java'', ''exception/ResourceAlreadyExistsException.java''),
   (''exception/UnauthorizedActionException.java'', ''exception/UnauthorizedActionException.java''),
   (''repository/UserRepository.java'', ''repository/UserRepository.java''),
   (''repository/CarRepository.java'', ''repository/CarRepository.java''),
   (''repository/OtpTokenRepository.java'', ''repository/OtpTokenRepository.java''),
   (''repository/ChatRepository.java'', ''repository/ChatRepository.java''),
   (''repository/ChatParticipantRepository.java'', ''repository/ChatParticipantRepository.java''),
   (''repository/MessageRepository.java'', ''repository/MessageRepository.java''),
   (''repository/MessageStatusRepository.java'', ''repository/MessageStatusRepository.java''),
   (''repository/UserStatusRepository.java'', ''repository/UserStatusRepository.java''),
   (''repository/chat/ChatRepository.java'', ''repository/chat/ChatRepository.java''),
   (''repository/chat/ChatParticipantRepository.java'', ''repository/chat/ChatParticipantRepository.java''),
   (''repository/chat/MessageRepository.java'', ''repository/chat/MessageRepository.java''),
   (''repository/chat/MessageStatusRepository.java'', ''repository/chat/MessageStatusRepository.java''),
   (''repository/chat/UserStatusRepository.java'', ''repository/chat/UserStatusRepository.java''),
   (''security/SecurityConfig.java'', ''security/SecurityConfig.java''),
   (''security/CustomUserDetailsService.java'', ''security/CustomUserDetailsService.java''),
   (''security/UserPrincipal.java'', ''security/UserPrincipal.java''),
   (''security/jwt/JwtAuthenticationEntryPoint.java'', ''security/jwt/JwtAuthenticationEntryPoint.java''),
   (''security/jwt/JwtAuthenticationFilter.java'', ''security/jwt/JwtAuthenticationFilter.java''),
   (''security/jwt/JwtTokenProvider.java'', ''security/jwt/JwtTokenProvider.java''),
   (''service/AuthService.java'', ''service/AuthService.java''),
   (''service/AuthenticationService.java'', ''service/AuthenticationService.java''),
   (''service/UserService.java'', ''service/UserService.java''),
   (''service/CarService.java'', ''service/CarService.java''),
   (''service/OtpService.java'', ''service/OtpService.java''),
   (''service/CarServiceImpl.java'', ''service/impl/CarServiceImpl.java''),
   (''service/chat/ChatService.java'', ''service/chat/ChatService.java''),
   (''service/chat/ChatSecurityService.java'', ''service/chat/ChatSecurityService.java''),
   (''service/chat/MessageService.java'', ''service/chat/MessageService.java''),
   (''service/chat/MessageDeliveryService.java'', ''service/chat/MessageDeliveryService.java''),
   (''service/chat/RateLimitingService.java'', ''service/chat/RateLimitingService.java''),
   (''service/chat/UserStatusService.java'', ''service/chat/UserStatusService.java'')]"

section \<open>The file system and the run\<close>

text \<open>
  A path that exists is either a text file with its decoded content or something that
  \<open>open\<close>/\<open>read\<close> raises on (a directory, a file that is not UTF-8, a file without read
  permission), with the message of the exception.  \<open>deny_write\<close> gives the paths on which
  creating the parent directories or opening for writing raises, with the message.
  \<open>exists\<close> and \<open>print\<close> are taken not to raise here; an \<open>exists\<close> that raises is
  added in the last section of the model.
\<close>

datatype node = File pystr | Unreadable string

record filesystem =
  nodes :: "path \<Rightarrow> node option"
  deny_write :: "path \<Rightarrow> string option"

datatype error = FileNotFoundError path | ReadError string | WriteError string

definition exists_path :: "filesystem \<Rightarrow> path \<Rightarrow> bool" where
  "exists_path F p = (nodes F p \<noteq> None)"

definition read_text :: "filesystem \<Rightarrow> path \<Rightarrow> error + pystr" where
  "read_text F p =
     (case nodes F p of
        None \<Rightarrow> Inl (FileNotFoundError p)
      | Some (Unreadable msg) \<Rightarrow> Inl (ReadError msg)
      | Some (File content) \<Rightarrow> Inr content)"

definition write_text :: "filesystem \<Rightarrow> path \<Rightarrow> pystr \<Rightarrow> error + filesystem" where
  "write_text F p content =
     (case deny_write F p of
        Some msg \<Rightarrow> Inl (WriteError msg)
      | None \<Rightarrow> Inr (F\<lparr>nodes := (nodes F)(p \<mapsto> File content)\<rparr>))"

text \<open>
  What the script prints, line by line.  The lines that carry data are constructors;
  \<open>NextSteps\<close> is the fixed block of instructions at the end.
\<close>

datatype line =
    Rule
  | BlankRule
  | Text string
  | MigratedLine string path
  | FailedLine string error
  | NotFoundLine string
  | SuccessLine int
  | FailCountLine int
  | NextSteps

text \<open>
  \<open>migrate_file\<close>: the body of the \<open>try\<close> up to the first exception; the handler prints
  and returns \<open>False\<close>.
\<close>

definition migrate_file :: "path \<Rightarrow> path \<Rightarrow> filesystem \<Rightarrow> bool \<times> filesystem \<times> line list" where
  "migrate_file old_path new_path F =
     (case read_text F old_path of
        Inl e \<Rightarrow> (False, F, [FailedLine (path_name old_path) e])
      | Inr content \<Rightarrow>
          (case write_text F new_path (update_package_and_imports content new_path) of
             Inl e \<Rightarrow> (False, F, [FailedLine (path_name old_path) e])
           | Inr F' \<Rightarrow> (True, F', [MigratedLine (path_name old_path) new_path])))"

record run =
  disk :: filesystem
  success_count :: int
  fail_count :: int
  printed :: "line list"

text \<open>\<open>if migrate_file(...): success_count += 1 else: fail_count += 1\<close>.\<close>

definition migrate_counted :: "path \<Rightarrow> path \<Rightarrow> run \<Rightarrow> run" where
  "migrate_counted old_file new_file st =
     (case migrate_file old_file new_file (disk st) of
        (ok, F', ls) \<Rightarrow>
          if ok then st\<lparr>disk := F', success_count := success_count st + 1, printed := printed st @ ls\<rparr>
          else st\<lparr>disk := F', fail_count := fail_count st + 1, printed := printed st @ ls\<rparr>)"

text \<open>The body of the loop over \<open>FILE_MAPPINGS.items()\<close>.\<close>

definition process_entry :: "string \<times> string \<Rightarrow> run \<Rightarrow> run" where
  "process_entry e st =
     (case e of (old_rel_path, new_rel_path) \<Rightarrow>
        let old_file = joinpath OLD_SRC old_rel_path;
            new_file = joinpath NEW_SRC new_rel_path
        in if exists_path (disk st) old_file then migrate_counted old_file new_file st
           else st\<lparr>printed := printed st @ [NotFoundLine old_rel_path]\<rparr>)"

definition process_all :: "(string \<times> string) list \<Rightarrow> run \<Rightarrow> run" where
  "process_all es st = fold process_entry es st"

definition migrate_tests :: "run \<Rightarrow> run" where
  "migrate_tests st =
     (let test_file = joinpath OLD_TEST ''SellTheOldCarApplicationTests.java''
      in if exists_path (disk st) test_file
         then migrate_counted test_file (joinpath NEW_TEST ''OldCarApplicationTests.java'') st
         else st)"

definition summary :: "int \<Rightarrow> int \<Rightarrow> line list" where
  "summary s f =
     [BlankRule, Text ''Migration completed!'', SuccessLine s]
     @ (if f > 0 then [FailCountLine f] else [])
     @ [Rule, NextSteps]"

definition initial_run :: "filesystem \<Rightarrow> run" where
  "initial_run F =
     \<lparr>disk = F, success_count = 0, fail_count = 0,
      printed = [Rule, Text ''Starting Java code migration...'', Rule]\<rparr>"

definition main :: "filesystem \<Rightarrow> run" where
  "main F =
     (let st = migrate_tests (process_all FILE_MAPPINGS (initial_run F))
      in st\<lparr>printed := printed st @ summary (success_count st) (fail_count st)\<rparr>)"

section \<open>An \<open>exists\<close> that raises\<close>

text \<open>
  \<open>Path.exists\<close> calls \<open>os.stat\<close> and answers \<open>False\<close> only when the error says that the
  path is not there (no such file, not a directory, bad descriptor, too many links); any
  other \<open>OSError\<close>, such as \<open>PermissionError\<close> for a directory that may not be searched,
  is raised to the caller (pathlib of Python 3.11).  Both calls of \<open>exists\<close> are in
  \<open>main\<close>, outside the \<open>try\<close> of \<open>migrate_file\<close>, so that exception leaves \<open>main\<close>.
  \<open>stat_error\<close> gives the paths on which \<open>os.stat\<close> raises such an error, with its
  message.  A run then ends either with the exception and the state reached when it was
  raised (\<open>Inl\<close>), or with the final state (\<open>Inr\<close>).
\<close>

type_synonym stat_error = "path \<Rightarrow> string option"

datatype uncaught = OSError string

definition exists_raising :: "stat_error \<Rightarrow> filesystem \<Rightarrow> path \<Rightarrow> uncaught + bool" where
  "exists_raising E F p =
     (case E p of
        Some msg \<Rightarrow> Inl (OSError msg)
      | None \<Rightarrow> Inr (exists_path F p))"

definition process_entry_raising :: "stat_error \<Rightarrow> string \<times> string \<Rightarrow> run \<Rightarrow> uncaught + run" where
  "process_entry_raising E e st =
     (case e of (old_rel_path, new_rel_path) \<Rightarrow>
        let old_file = joinpath OLD_SRC old_rel_path;
            new_file = joinpath NEW_SRC new_rel_path
        in case exists_raising E (disk st) old_file of
             Inl x \<Rightarrow> Inl x
           | Inr b \<Rightarrow>
               Inr (if b then migrate_counted old_file new_file st
                    else st\<lparr>printed := printed st @ [NotFoundLine old_rel_path]\<rparr>))"

fun process_all_raising ::
  "stat_error \<Rightarrow> (string \<times> string) list \<Rightarrow> run \<Rightarrow> (uncaught \<times> run) + run" where
  "process_all_raising E [] st = Inr st"
| "process_all_raising E (e # es) st =
     (case process_entry_raising E e st of
        Inl x \<Rightarrow> Inl (x, st)
      | Inr st' \<Rightarrow> process_all_raising E es st')"

definition migrate_tests_raising :: "stat_error \<Rightarrow> run \<Rightarrow> uncaught + run" where
  "migrate_tests_raising E st =
     (let test_file = joinpath OLD_TEST ''SellTheOldCarApplicationTests.java''
      in case exists_raising E (disk st) test_file of
           Inl x \<Rightarrow> Inl x
         | Inr b \<Rightarrow>
             Inr (if b
                  then migrate_counted test_file (joinpath NEW_TEST ''OldCarApplicationTests.java'') st
                  else st))"

definition main_raising :: "stat_error \<Rightarrow> filesystem \<Rightarrow> (uncaught \<times> run) + run" where
  "main_raising E F =
     (case process_all_raising E FILE_MAPPINGS (initial_run F) of
        Inl a \<Rightarrow> Inl a
      | Inr st1 \<Rightarrow>
          (case migrate_tests_raising E st1 of
             Inl x \<Rightarrow> Inl (x, st1)
           | Inr st \<Rightarrow>
               Inr (st\<lparr>printed := printed st @ summary (success_count st) (fail_count st)\<rparr>)))"

section \<open>Notions used in the proofs\<close>

text \<open>
  The outcome of one migration as a function of the file system: the exception that
  \<open>migrate_file\<close> catches, if any, and the content it writes otherwise.
\<close>

definition migration_error :: "filesystem \<Rightarrow> path \<Rightarrow> path \<Rightarrow> error option" where
  "migration_error F old_path new_path =
     (case nodes F old_path of
        None \<Rightarrow> Some (FileNotFoundError old_path)
      | Some (Unreadable msg) \<Rightarrow> Some (ReadError msg)
      | Some (File content) \<Rightarrow>
          (case deny_write F new_path of Some msg \<Rightarrow> Some (WriteError msg) | None \<Rightarrow> None))"

definition migrated_content :: "filesystem \<Rightarrow> path \<Rightarrow> path \<Rightarrow> pystr" where
  "migrated_content F old_path new_path =
     (case nodes F old_path of
        Some (File content) \<Rightarrow> update_package_and_imports content new_path
      | _ \<Rightarrow> [])"

text \<open>Writing one file, and the list of writes that an entry, the table and the whole run perform.\<close>

definition put_file :: "path \<times> pystr \<Rightarrow> filesystem \<Rightarrow> filesystem" where
  "put_file w F = F\<lparr>nodes := (nodes F)(fst w \<mapsto> File (snd w))\<rparr>"

definition write_of :: "filesystem \<Rightarrow> path \<Rightarrow> path \<Rightarrow> (path \<times> pystr) list" where
  "write_of F old_path new_path =
     (if exists_path F old_path \<and> migration_error F old_path new_path = None
      then [(new_path, migrated_content F old_path new_path)] else [])"

definition writes :: "filesystem \<Rightarrow> (string \<times> string) list \<Rightarrow> (path \<times> pystr) list" where
  "writes F es =
     concat (map (\<lambda>e. write_of F (joinpath OLD_SRC (fst e)) (joinpath NEW_SRC (snd e))) es)"

definition all_writes :: "filesystem \<Rightarrow> (path \<times> pystr) list" where
  "all_writes F =
     writes F FILE_MAPPINGS
     @ write_of F (joinpath OLD_TEST ''SellTheOldCarApplicationTests.java'')
         (joinpath NEW_TEST ''OldCarApplicationTests.java'')"

text \<open>
  The new trees, and two file systems that differ at most inside them and raise on the
  same writes.
\<close>

definition in_new_tree :: "path \<Rightarrow> bool" where
  "in_new_tree p = (prefix NEW_SRC p \<or> prefix NEW_TEST p)"

definition same_sources :: "filesystem \<Rightarrow> filesystem \<Rightarrow> bool" where
  "same_sources F G =
     (deny_write G = deny_write F \<and> (\<forall>p. in_new_tree p \<or> nodes G p = nodes F p))"

text \<open>What the loop prints for an entry, and whether it counts as a failure or a success.\<close>

definition entry_lines :: "filesystem \<Rightarrow> string \<times> string \<Rightarrow> line list" where
  "entry_lines F e =
     (let old_file = joinpath OLD_SRC (fst e); new_file = joinpath NEW_SRC (snd e)
      in if exists_path F old_file
         then (case migration_error F old_file new_file of
                 Some x \<Rightarrow> [FailedLine (path_name old_file) x]
               | None \<Rightarrow> [MigratedLine (path_name old_file) new_file])
         else [NotFoundLine (fst e)])"

definition entry_fails :: "filesystem \<Rightarrow> string \<times> string \<Rightarrow> bool" where
  "entry_fails F e =
     (exists_path F (joinpath OLD_SRC (fst e))
      \<and> migration_error F (joinpath OLD_SRC (fst e)) (joinpath NEW_SRC (snd e)) \<noteq> None)"

definition entry_migrates :: "filesystem \<Rightarrow> string \<times> string \<Rightarrow> bool" where
  "entry_migrates F e =
     (exists_path F (joinpath OLD_SRC (fst e))
      \<and> migration_error F (joinpath OLD_SRC (fst e)) (joinpath NEW_SRC (snd e)) = None)"

text \<open>
  Two texts are compatible when one is a prefix of the other; a word is clean for a text
  when none of its non-empty suffixes is compatible with the text, so that the text cannot
  start inside the word; a text is unbordered when it cannot start inside itself.
\<close>

definition compat :: "pystr \<Rightarrow> pystr \<Rightarrow> bool" where
  "compat u v = (prefix u v \<or> prefix v u)"

fun clean :: "pystr \<Rightarrow> pystr \<Rightarrow> bool" where
  "clean N [] = True"
| "clean N (c # cs) = (\<not> compat (c # cs) N \<and> clean N cs)"

definition unbordered :: "pystr \<Rightarrow> bool" where
  "unbordered N = (N \<noteq> [] \<and> clean N (tl N))"

text \<open>
  The rules of \<open>replacements\<close> without the new package name in front of key and value, and
  what makes two of them independent.
\<close>

definition rule_tails :: "(pystr \<times> pystr) list" where
  "rule_tails =
     [(str ''.model.'', str ''.entity.''),
      (str ''.dto.UserDTO.'', str ''.dto.auth.''),
      (str ''.dto.CarDTO.'', str ''.dto.car.''),
      (str ''.security.AuthPayload'', str ''.dto.auth.AuthPayload''),
      (str ''.security.jwt.JwtAuthResponse'', str ''.dto.auth.JwtAuthResponse'')]"

definition marked :: "pystr \<Rightarrow> pystr \<times> pystr \<Rightarrow> pystr \<times> pystr" where
  "marked N r = (N @ fst r, N @ snd r)"

definition independent :: "pystr \<times> pystr \<Rightarrow> pystr \<times> pystr \<Rightarrow> bool" where
  "independent r1 r2 =
     (\<not> compat (fst r1) (fst r2) \<and> \<not> compat (fst r1) (snd r2) \<and> \<not> compat (fst r2) (snd r1))"


text \<open>
  The rewrite in two halves: the three passes with regular expressions, then the literal
  rules and the new name of the application class, replaced wherever it occurs.  A text
  is quiet when no key of a rule and not the old class name occurs in it.
\<close>

definition regex_passes :: "pystr \<Rightarrow> pystr" where
  "regex_passes c = re_sub static_import_rule (re_sub import_rule (re_sub package_rule c))"



section \<open>Example file systems\<close>

text \<open>
  An empty disk; a disk with both historical locations of \<open>Chat.java\<close>; the same disk
  with the first of the two files not decodable as UTF-8.
\<close>

definition empty_fs :: filesystem where
  "empty_fs = \<lparr>nodes = Map.empty, deny_write = Map.empty\<rparr>"

definition chat_fs :: filesystem where
  "chat_fs =
     \<lparr>nodes = [joinpath OLD_SRC ''model/Chat.java'' \<mapsto>
                  File (str ''package com.CarSelling.Sell.the.old.Car.model;''),
               joinpath OLD_SRC ''model/chat/Chat.java'' \<mapsto>
                  File (str ''package com.CarSelling.Sell.the.old.Car.model.chat;'' @ [10]
                        @ str ''import com.CarSelling.Sell.the.old.Car.model.User;'')],
      deny_write = Map.empty\<rparr>"

definition broken_chat_fs :: filesystem where
  "broken_chat_fs =
     \<lparr>nodes = [joinpath OLD_SRC ''model/Chat.java'' \<mapsto> Unreadable ''invalid start byte'',
               joinpath OLD_SRC ''model/chat/Chat.java'' \<mapsto>
                  File (str ''package com.CarSelling.Sell.the.old.Car.model.chat;'')],
      deny_write = Map.empty\<rparr>"

text \<open>A source tree in which the first source path of the table may not be looked up.\<close>

definition no_search_fs :: stat_error where
  "no_search_fs = [joinpath OLD_SRC ''SellTheOldCarApplication.java'' \<mapsto> ''Permission denied'']"


section \<open>Evaluation\<close>

text \<open>
  The literals of the script as code points, computed once, so that a concrete text is
  rewritten without converting the patterns again at every position.
\<close>

lemma lit_Nil: "lit [] k s = k s"
  by (simp add: lit_def)

lemma lit_Cons_Nil: "lit (a # w) k [] = None"
  by (simp add: lit_def)

lemma lit_Cons_Cons: "lit (a # w) k (c # cs) = (if a = c then lit w k cs else None)"
  by (simp add: lit_def)

lemma OLD_PACKAGE_num: "OLD_PACKAGE = [99, 111, 109, 46, 67, 97, 114, 83, 101, 108, 108, 105, 110, 103, 46, 83, 101, 108, 108, 46, 116, 104, 101, 46, 111, 108, 100, 46, 67, 97, 114]"
  by (simp add: OLD_PACKAGE_def str_def)

lemma NEW_PACKAGE_num: "NEW_PACKAGE = [99, 111, 109, 46, 99, 97, 114, 115, 101, 108, 108, 105, 110, 103, 46, 111, 108, 100, 99, 97, 114]"
  by (simp add: NEW_PACKAGE_def str_def)

lemma match_package_num:
  "match_package =
     lit [112, 97, 99, 107, 97, 103, 101] (plus_class is_space (\<lambda>_. lit [99, 111, 109, 46, 67, 97, 114, 83, 101, 108, 108, 105, 110, 103, 46, 83, 101, 108, 108, 46, 116, 104, 101, 46, 111, 108, 100, 46, 67, 97, 114] (\<lambda>s3.
       (case lit [46] (plus_class is_pkg_char (\<lambda>g. lit [59]
                   (\<lambda>s6. Some (Some (46 # g), s6))) []) s3 of
          Some r \<Rightarrow> Some r
        | None \<Rightarrow> lit [59] (\<lambda>s6. Some (None, s6)) s3))) [])"
  by (simp add: match_package_def OLD_PACKAGE_num str_def cong: option.case_cong)

lemma package_repl_num:
  "package_repl g = [112, 97, 99, 107, 97, 103, 101, 32, 99, 111, 109, 46, 99, 97, 114, 115, 101, 108, 108, 105, 110, 103, 46, 111, 108, 100, 99, 97, 114] @ (case g of Some t \<Rightarrow> t | None \<Rightarrow> []) @ [59]"
  by (simp add: package_repl_def NEW_PACKAGE_num str_def split: option.split)

lemma match_import_num:
  "match_import = lit [105, 109, 112, 111, 114, 116] (plus_class is_space (\<lambda>_. lit [99, 111, 109, 46, 67, 97, 114, 83, 101, 108, 108, 105, 110, 103, 46, 83, 101, 108, 108, 46, 116, 104, 101, 46, 111, 108, 100, 46, 67, 97, 114] Some) [])"
  by (simp add: match_import_def OLD_PACKAGE_num str_def)

lemma import_rule_num:
  "import_rule s = map_option (\<lambda>rest. ([105, 109, 112, 111, 114, 116, 32, 99, 111, 109, 46, 99, 97, 114, 115, 101, 108, 108, 105, 110, 103, 46, 111, 108, 100, 99, 97, 114], rest)) (match_import s)"
  by (simp add: import_rule_def NEW_PACKAGE_num str_def)

lemma match_static_import_num:
  "match_static_import = lit [105, 109, 112, 111, 114, 116] (plus_class is_space (\<lambda>_. lit [115, 116, 97, 116, 105, 99]
       (plus_class is_space (\<lambda>_. lit [99, 111, 109, 46, 67, 97, 114, 83, 101, 108, 108, 105, 110, 103, 46, 83, 101, 108, 108, 46, 116, 104, 101, 46, 111, 108, 100, 46, 67, 97, 114] Some) [])) [])"
  by (simp add: match_static_import_def OLD_PACKAGE_num str_def)

lemma static_import_rule_num:
  "static_import_rule s = map_option (\<lambda>rest. ([105, 109, 112, 111, 114, 116, 32, 115, 116, 97, 116, 105, 99, 32, 99, 111, 109, 46, 99, 97, 114, 115, 101, 108, 108, 105, 110, 103, 46, 111, 108, 100, 99, 97, 114], rest)) (match_static_import s)"
  by (simp add: static_import_rule_def NEW_PACKAGE_num str_def)

lemma replacements_num:
  "replacements =
     [([99, 111, 109, 46, 99, 97, 114, 115, 101, 108, 108, 105, 110, 103, 46, 111, 108, 100, 99, 97, 114, 46, 109, 111, 100, 101, 108, 46],
       [99, 111, 109, 46, 99, 97, 114, 115, 101, 108, 108, 105, 110, 103, 46, 111, 108, 100, 99, 97, 114, 46, 101, 110, 116, 105, 116, 121, 46]),
      ([99, 111, 109, 46, 99, 97, 114, 115, 101, 108, 108, 105, 110, 103, 46, 111, 108, 100, 99, 97, 114, 46, 100, 116, 111, 46, 85, 115, 101, 114, 68, 84, 79, 46],
       [99, 111, 109, 46, 99, 97, 114, 115, 101, 108, 108, 105, 110, 103, 46, 111, 108, 100, 99, 97, 114, 46, 100, 116, 111, 46, 97, 117, 116, 104, 46]),
      ([99, 111, 109, 46, 99, 97, 114, 115, 101, 108, 108, 105, 110, 103, 46, 111, 108, 100, 99, 97, 114, 46, 100, 116, 111, 46, 67, 97, 114, 68, 84, 79, 46],
       [99, 111, 109, 46, 99, 97, 114, 115, 101, 108, 108, 105, 110, 103, 46, 111, 108, 100, 99, 97, 114, 46, 100, 116, 111, 46, 99, 97, 114, 46]),
      ([99, 111, 109, 46, 99, 97, 114, 115, 101, 108, 108, 105, 110, 103, 46, 111, 108, 100, 99, 97, 114, 46, 115, 101, 99, 117, 114, 105, 116, 121, 46, 65, 117, 116, 104, 80, 97, 121, 108, 111, 97, 100],
       [99, 111, 109, 46, 99, 97, 114, 115, 101, 108, 108, 105, 110, 103, 46, 111, 108, 100, 99, 97, 114, 46, 100, 116, 111, 46, 97, 117, 116, 104, 46, 65, 117, 116, 104, 80, 97, 121, 108, 111, 97, 100]),
      ([99, 111, 109, 46, 99, 97, 114, 115, 101, 108, 108, 105, 110, 103, 46, 111, 108, 100, 99, 97, 114, 46, 115, 101, 99, 117, 114, 105, 116, 121, 46, 106, 119, 116, 46, 74, 119, 116, 65, 117, 116, 104, 82, 101, 115, 112, 111, 110, 115, 101],
       [99, 111, 109, 46, 99, 97, 114, 115, 101, 108, 108, 105, 110, 103, 46, 111, 108, 100, 99, 97, 114, 46, 100, 116, 111, 46, 97, 117, 116, 104, 46, 74, 119, 116, 65, 117, 116, 104, 82, 101, 115, 112, 111, 110, 115, 101])]"
  by (simp add: replacements_def NEW_PACKAGE_num str_def)

lemma update_num:
  "update_package_and_imports content file_path =
     (let content = re_sub package_rule content;
          content = re_sub import_rule content;
          content = re_sub static_import_rule content;
          content = apply_replacements replacements content
      in if contains [83, 101, 108, 108, 84, 104, 101, 79, 108, 100, 67, 97, 114, 65, 112, 112, 108, 105, 99, 97, 116, 105, 111, 110] content
         then replace [83, 101, 108, 108, 84, 104, 101, 79, 108, 100, 67, 97, 114, 65, 112, 112, 108, 105, 99, 97, 116, 105, 111, 110]
                [79, 108, 100, 67, 97, 114, 65, 112, 112, 108, 105, 99, 97, 116, 105, 111, 110] content
         else content)"
  by (simp add: update_package_and_imports_def Let_def str_def cong: if_cong)

lemmas eval_simps =
  lit_Nil lit_Cons_Nil lit_Cons_Cons match_package_num package_repl_num match_import_num
  import_rule_num match_static_import_num static_import_rule_num replacements_num update_num
  package_rule_def apply_replacements_def is_space_def is_pkg_char_def str_def

lemma in_set_hd: "x \<in> set (x # xs)"
  by simp

lemma in_set_tl: "x \<in> set xs \<Longrightarrow> x \<in> set (y # xs)"
  by simp

lemma distinct_by_key: "distinct (map f xs) \<Longrightarrow> distinct xs"
  by (simp add: distinct_map)

section \<open>Literal replacement and the order of the rules\<close>

lemma prefix_append_compat: "prefix N (u @ r) \<Longrightarrow> compat N u"
  by (auto simp: compat_def prefix_append)

lemma compat_sym: "compat u v = compat v u"
  by (auto simp: compat_def)

lemma replace_no_match:
  "\<not> prefix old (c # cs) \<Longrightarrow> replace old new (c # cs) = c # replace old new cs"
  by auto

lemma replace_match:
  "old \<noteq> [] \<Longrightarrow> replace old new (old @ r) = new @ replace old new r"
  by (cases old) auto

lemma replace_Nil: "old \<noteq> [] \<Longrightarrow> replace old new [] = []"
  by simp

text \<open>Skipping a word in which the marker cannot start.\<close>

lemma replace_skip_clean:
  assumes "K = N @ x" "N \<noteq> []" "clean N u"
  shows "replace K new (u @ r) = u @ replace K new r"
  using assms(3)
proof (induction u)
  case Nil
  then show ?case by simp
next
  case (Cons c u)
  have "\<not> prefix K ((c # u) @ r)"
  proof
    assume "prefix K ((c # u) @ r)"
    then have "prefix N ((c # u) @ r)" using assms(1) by (auto simp: prefix_def)
    then have "compat N (c # u)" by (rule prefix_append_compat)
    with Cons.prems show False by (simp add: compat_sym)
  qed
  with Cons show ?case by auto
qed

lemma replace_skip_marker:
  assumes "K = N @ x" "unbordered N" "\<not> prefix x t"
  shows "replace K new (N @ t) = N @ replace K new t"
proof -
  obtain a N' where N: "N = a # N'" using assms(2) by (cases N) (auto simp: unbordered_def)
  have cl: "clean N N'" using assms(2) N by (simp add: unbordered_def)
  have "\<not> prefix K (N @ t)" using assms(1,3) by simp
  then have "replace K new (N @ t) = a # replace K new (N' @ t)"
    using N replace_no_match[of K a "N' @ t" new] by simp
  also have "replace K new (N' @ t) = N' @ replace K new t"
    using assms(1) _ cl by (rule replace_skip_clean) (simp add: N)
  finally show ?thesis by (simp add: N)
qed

lemma replace_marker_match:
  assumes "K = N @ x" "N \<noteq> []"
  shows "replace K new (N @ x @ r) = new @ replace K new r"
  using replace_match[of K new r] assms by simp

text \<open>What the result starts with.\<close>

lemma prefix_replace_clean:
  assumes "K = N @ x" "N \<noteq> []" "new = N @ y" "clean N w" "prefix w (replace K new s)"
  shows "prefix w s"
  using assms(4,5)
proof (induction w arbitrary: s)
  case Nil
  then show ?case by simp
next
  case (Cons a w)
  have K: "K \<noteq> []" using assms(1,2) by simp
  show ?case
  proof (cases s)
    case Nil
    with Cons.prems K show ?thesis by simp
  next
    case (Cons c cs)
    show ?thesis
    proof (cases "prefix K s")
      case True
      then obtain r where s: "s = K @ r" by (auto simp: prefix_def)
      then have "replace K new s = N @ y @ replace K new r"
        using K assms(3) by (simp add: replace_match)
      with Cons.prems(2) have "prefix (a # w) (N @ y @ replace K new r)" by simp
      then have "compat (a # w) N" by (rule prefix_append_compat)
      with Cons.prems(1) show ?thesis by simp
    next
      case False
      then have "replace K new s = c # replace K new cs"
        using Cons replace_no_match[of K c cs new] by simp
      with Cons.prems have "a = c" "prefix w (replace K new cs)" by simp_all
      moreover have "clean N w" using Cons.prems(1) by simp
      ultimately show ?thesis using Cons.IH Cons by simp
    qed
  qed
qed

lemma prefix_replace_marker:
  assumes "K = N @ x" "unbordered N" "new = N @ y" "prefix N (replace K new s)"
  shows "prefix N s"
proof -
  obtain a N' where N: "N = a # N'" using assms(2) by (cases N) (auto simp: unbordered_def)
  have cl: "clean N N'" using assms(2) N by (simp add: unbordered_def)
  have K: "K \<noteq> []" using assms(1) N by simp
  show ?thesis
  proof (cases s)
    case Nil
    with assms(4) K N show ?thesis by simp
  next
    case (Cons c cs)
    show ?thesis
    proof (cases "prefix K s")
      case True
      then show ?thesis using assms(1) by (auto simp: prefix_def)
    next
      case False
      then have "replace K new s = c # replace K new cs"
        using Cons replace_no_match[of K c cs new] by simp
      with assms(4) N have "a = c" "prefix N' (replace K new cs)" by simp_all
      moreover have "prefix N' cs"
        using assms(1) _ assms(3) cl \<open>prefix N' (replace K new cs)\<close>
        by (rule prefix_replace_clean) (simp add: N)
      ultimately show ?thesis using N Cons by simp
    qed
  qed
qed

lemma not_compat_prefix: "\<not> compat x y \<Longrightarrow> \<not> prefix x (y @ r)"
  using prefix_append_compat by blast

lemma replace_commute:
  assumes N: "unbordered N"
    and c: "clean N x1" "clean N y1" "clean N x2" "clean N y2"
    and i: "\<not> compat x1 x2" "\<not> compat x1 y2" "\<not> compat x2 y1"
  shows "replace (N @ x1) (N @ y1) (replace (N @ x2) (N @ y2) s)
       = replace (N @ x2) (N @ y2) (replace (N @ x1) (N @ y1) s)"
proof (induction s rule: length_induct)
  case (1 s)
  let ?R1 = "replace (N @ x1) (N @ y1)" and ?R2 = "replace (N @ x2) (N @ y2)"
  have N0: "N \<noteq> []" using N by (simp add: unbordered_def)
  have IH: "?R1 (?R2 r) = ?R2 (?R1 r)" if "length r < length s" for r
    using 1 that by blast
  show ?case
  proof (cases "prefix N s")
    case False
    show ?thesis
    proof (cases s)
      case Nil
      then show ?thesis using N0 by simp
    next
      case (Cons a cs)
      note s = Cons
    have n1: "\<not> prefix (N @ x1) s" and n2: "\<not> prefix (N @ x2) s"
      using False by (auto simp: prefix_def)
    have r1: "?R1 s = a # ?R1 cs" and r2: "?R2 s = a # ?R2 cs"
      using n1 n2 s replace_no_match[of "N @ x1" a cs] replace_no_match[of "N @ x2" a cs]
      by simp_all
    have "\<not> prefix N (?R1 s)"
      using False prefix_replace_marker[OF refl N refl] by blast
    then have m1: "\<not> prefix (N @ x2) (a # ?R1 cs)" by (auto simp: r1 prefix_def)
    have "\<not> prefix N (?R2 s)"
      using False prefix_replace_marker[OF refl N refl] by blast
    then have m2: "\<not> prefix (N @ x1) (a # ?R2 cs)" by (auto simp: r2 prefix_def)
    have "?R1 (?R2 s) = a # ?R1 (?R2 cs)"
      using m2 replace_no_match[of "N @ x1" a "?R2 cs"] by (simp add: r2)
    moreover have "?R2 (?R1 s) = a # ?R2 (?R1 cs)"
      using m1 replace_no_match[of "N @ x2" a "?R1 cs"] by (simp add: r1)
    ultimately show ?thesis using IH[of cs] s by simp
    qed
  next
    case True
    then obtain t where s: "s = N @ t" by (auto simp: prefix_def)
    have lt: "length t < length s" using s N0 by simp
    consider (a) "prefix x1 t" | (b) "prefix x2 t" | (c) "\<not> prefix x1 t" "\<not> prefix x2 t"
      by blast
    then show ?thesis
    proof cases
      case a
      then obtain r where t: "t = x1 @ r" by (auto simp: prefix_def)
      have nx2: "\<not> prefix x2 t"
        using i(1) t not_compat_prefix[of x2 x1 r] by (simp add: compat_sym)
      have "?R1 s = N @ y1 @ ?R1 r"
        using replace_marker_match[OF refl N0, of x1 "N @ y1" r] by (simp add: s t)
      moreover have "?R2 (N @ y1 @ ?R1 r) = N @ ?R2 (y1 @ ?R1 r)"
        using replace_skip_marker[OF refl N, of x2 "y1 @ ?R1 r"] not_compat_prefix[OF i(3)] by simp
      moreover have "?R2 (y1 @ ?R1 r) = y1 @ ?R2 (?R1 r)"
        using replace_skip_clean[OF refl N0 c(2)] by simp
      ultimately have lhs: "?R2 (?R1 s) = N @ y1 @ ?R2 (?R1 r)" by simp
      have "?R2 s = N @ ?R2 t"
        using replace_skip_marker[OF refl N nx2] by (simp add: s)
      moreover have "?R2 t = x1 @ ?R2 r"
        using replace_skip_clean[OF refl N0 c(1)] by (simp add: t)
      moreover have "?R1 (N @ x1 @ ?R2 r) = N @ y1 @ ?R1 (?R2 r)"
        using replace_marker_match[OF refl N0, of x1 "N @ y1" "?R2 r"] by simp
      ultimately have rhs: "?R1 (?R2 s) = N @ y1 @ ?R1 (?R2 r)" by simp
      have "length r < length s" using s t N0 by simp
      from IH[OF this] lhs rhs show ?thesis by simp
    next
      case b
      then obtain r where t: "t = x2 @ r" by (auto simp: prefix_def)
      have nx1: "\<not> prefix x1 t"
        using i(1) t not_compat_prefix[of x1 x2 r] by simp
      have "?R2 s = N @ y2 @ ?R2 r"
        using replace_marker_match[OF refl N0, of x2 "N @ y2" r] by (simp add: s t)
      moreover have "?R1 (N @ y2 @ ?R2 r) = N @ ?R1 (y2 @ ?R2 r)"
        using replace_skip_marker[OF refl N, of x1 "y2 @ ?R2 r"] not_compat_prefix[OF i(2)] by simp
      moreover have "?R1 (y2 @ ?R2 r) = y2 @ ?R1 (?R2 r)"
        using replace_skip_clean[OF refl N0 c(4)] by simp
      ultimately have lhs: "?R1 (?R2 s) = N @ y2 @ ?R1 (?R2 r)" by simp
      have "?R1 s = N @ ?R1 t"
        using replace_skip_marker[OF refl N nx1] by (simp add: s)
      moreover have "?R1 t = x2 @ ?R1 r"
        using replace_skip_clean[OF refl N0 c(3)] by (simp add: t)
      moreover have "?R2 (N @ x2 @ ?R1 r) = N @ y2 @ ?R2 (?R1 r)"
        using replace_marker_match[OF refl N0, of x2 "N @ y2" "?R1 r"] by simp
      ultimately have rhs: "?R2 (?R1 s) = N @ y2 @ ?R2 (?R1 r)" by simp
      have "length r < length s" using s t N0 by simp
      from IH[OF this] lhs rhs show ?thesis by simp
    next
      case c
      have "?R1 s = N @ ?R1 t" "?R2 s = N @ ?R2 t"
        using replace_skip_marker[OF refl N c(1)] replace_skip_marker[OF refl N c(2)]
        by (simp_all add: s)
      moreover have "\<not> prefix x2 (?R1 t)"
        using c(2) prefix_replace_clean[OF refl N0 refl \<open>clean N x2\<close>] by blast
      moreover have "\<not> prefix x1 (?R2 t)"
        using c(1) prefix_replace_clean[OF refl N0 refl \<open>clean N x1\<close>] by blast
      ultimately have "?R2 (?R1 s) = N @ ?R2 (?R1 t)" "?R1 (?R2 s) = N @ ?R1 (?R2 t)"
        using replace_skip_marker[OF refl N, of x2 "?R1 t"] replace_skip_marker[OF refl N, of x1 "?R2 t"]
        by simp_all
      with IH[OF lt] show ?thesis by simp
    qed
  qed
qed

lemma replacements_marked: "replacements = map (marked NEW_PACKAGE) rule_tails"
  by (simp add: replacements_def rule_tails_def marked_def)

lemma rule_tails_num:
  "rule_tails =
     [([46, 109, 111, 100, 101, 108, 46],
       [46, 101, 110, 116, 105, 116, 121, 46]),
      ([46, 100, 116, 111, 46, 85, 115, 101, 114, 68, 84, 79, 46],
       [46, 100, 116, 111, 46, 97, 117, 116, 104, 46]),
      ([46, 100, 116, 111, 46, 67, 97, 114, 68, 84, 79, 46],
       [46, 100, 116, 111, 46, 99, 97, 114, 46]),
      ([46, 115, 101, 99, 117, 114, 105, 116, 121, 46, 65, 117, 116, 104, 80, 97, 121, 108, 111, 97, 100],
       [46, 100, 116, 111, 46, 97, 117, 116, 104, 46, 65, 117, 116, 104, 80, 97, 121, 108, 111, 97, 100]),
      ([46, 115, 101, 99, 117, 114, 105, 116, 121, 46, 106, 119, 116, 46, 74, 119, 116, 65, 117, 116, 104, 82, 101, 115, 112, 111, 110, 115, 101],
       [46, 100, 116, 111, 46, 97, 117, 116, 104, 46, 74, 119, 116, 65, 117, 116, 104, 82, 101, 115, 112, 111, 110, 115, 101])]"
  by (simp add: rule_tails_def str_def)

lemma NEW_PACKAGE_unbordered: "unbordered NEW_PACKAGE"
  by (simp add: NEW_PACKAGE_num unbordered_def compat_def)

lemma rule_tails_clean:
  "list_all (\<lambda>r. clean NEW_PACKAGE (fst r) \<and> clean NEW_PACKAGE (snd r)) rule_tails"
  by (simp add: NEW_PACKAGE_num rule_tails_num compat_def)

lemma rule_tails_independent:
  "list_all (\<lambda>r1. list_all (\<lambda>r2. r1 = r2 \<or> independent r1 r2) rule_tails) rule_tails"
  by (simp add: rule_tails_num independent_def compat_def)

lemma replacements_commute:
  assumes "a \<in> set replacements" "b \<in> set replacements"
  shows "(\<lambda>(old, new) c. replace old new c) a \<circ> (\<lambda>(old, new) c. replace old new c) b
       = (\<lambda>(old, new) c. replace old new c) b \<circ> (\<lambda>(old, new) c. replace old new c) a"
proof -
  obtain r1 r2 where r: "r1 \<in> set rule_tails" "r2 \<in> set rule_tails"
    "a = marked NEW_PACKAGE r1" "b = marked NEW_PACKAGE r2"
    using assms by (auto simp: replacements_marked)
  show ?thesis
  proof (cases "r1 = r2")
    case True
    then show ?thesis using r by simp
  next
    case False
    have i: "independent r1 r2"
      using rule_tails_independent r(1,2) False by (auto simp: list_all_iff)
    have c: "clean NEW_PACKAGE (fst r1)" "clean NEW_PACKAGE (snd r1)"
      "clean NEW_PACKAGE (fst r2)" "clean NEW_PACKAGE (snd r2)"
      using rule_tails_clean r(1,2) by (auto simp: list_all_iff)
    have "replace (NEW_PACKAGE @ fst r1) (NEW_PACKAGE @ snd r1)
            (replace (NEW_PACKAGE @ fst r2) (NEW_PACKAGE @ snd r2) s)
        = replace (NEW_PACKAGE @ fst r2) (NEW_PACKAGE @ snd r2)
            (replace (NEW_PACKAGE @ fst r1) (NEW_PACKAGE @ snd r1) s)" for s
      using i by (intro replace_commute[OF NEW_PACKAGE_unbordered c]) (simp_all add: independent_def)
    then show ?thesis
      by (simp add: r marked_def fun_eq_iff)
  qed
qed

section \<open>The matchers\<close>











lemma lit_semi_class [simp]: "is_pkg_char c \<Longrightarrow> lit (str '';'') k (c # cs) = None"
  by (auto simp: lit_def is_pkg_char_def str_def)











section \<open>Substitution\<close>


lemma re_sub_no_match:
  assumes "m (c # cs) = None"
  shows "re_sub m (c # cs) = c # re_sub m cs"
  using assms by simp


section \<open>Words in which a text cannot start\<close>








section \<open>Where a match can start\<close>











section \<open>The import pass\<close>










section \<open>The static import pass\<close>









section \<open>The package pass\<close>











section \<open>The three regular-expression passes on one statement\<close>

lemma regex_passes_Nil: "regex_passes [] = []"
  by (simp add: regex_passes_def)


















section \<open>The literal rules on one statement\<close>














section \<open>The whole rewrite on one statement\<close>







section \<open>The run as a function of the initial file system\<close>

lemma migrate_file_error:
  "migration_error F old new = Some e \<Longrightarrow>
   migrate_file old new F = (False, F, [FailedLine (path_name old) e])"
  by (auto simp: migration_error_def migrate_file_def read_text_def write_text_def
      split: option.splits node.splits)

lemma migrate_file_ok:
  "migration_error F old new = None \<Longrightarrow>
   migrate_file old new F =
     (True, put_file (new, migrated_content F old new) F, [MigratedLine (path_name old) new])"
  by (auto simp: migration_error_def migrate_file_def read_text_def write_text_def put_file_def
      migrated_content_def split: option.splits node.splits)

lemma migrate_counted_error:
  "migration_error (disk st) old new = Some e \<Longrightarrow>
   migrate_counted old new st =
     st\<lparr>fail_count := fail_count st + 1, printed := printed st @ [FailedLine (path_name old) e]\<rparr>"
  by (simp add: migrate_counted_def migrate_file_error)

lemma migrate_counted_ok:
  "migration_error (disk st) old new = None \<Longrightarrow>
   migrate_counted old new st =
     st\<lparr>disk := put_file (new, migrated_content (disk st) old new) (disk st),
        success_count := success_count st + 1,
        printed := printed st @ [MigratedLine (path_name old) new]\<rparr>"
  by (simp add: migrate_counted_def migrate_file_ok)

lemma joinpath_prefix [simp]: "prefix R (joinpath R rel)"
  by (simp add: joinpath_def)

lemma roots_incomparable:
  "\<not> prefix OLD_SRC NEW_SRC" "\<not> prefix NEW_SRC OLD_SRC"
  "\<not> prefix OLD_SRC NEW_TEST" "\<not> prefix NEW_TEST OLD_SRC"
  "\<not> prefix OLD_TEST NEW_SRC" "\<not> prefix NEW_SRC OLD_TEST"
  "\<not> prefix OLD_TEST NEW_TEST" "\<not> prefix NEW_TEST OLD_TEST"
  by (simp_all add: OLD_SRC_def NEW_SRC_def OLD_TEST_def NEW_TEST_def)

lemma old_not_new:
  assumes "prefix OLD_SRC p \<or> prefix OLD_TEST p"
  shows "\<not> in_new_tree p"
  using assms roots_incomparable unfolding in_new_tree_def
  by (metis prefix_same_cases)

lemma same_sources_refl [simp]: "same_sources F F"
  by (simp add: same_sources_def)

lemma same_sources_put:
  "same_sources F G \<Longrightarrow> in_new_tree (fst w) \<Longrightarrow> same_sources F (put_file w G)"
  by (auto simp: same_sources_def put_file_def)

lemma same_sources_old:
  "same_sources F G \<Longrightarrow> prefix OLD_SRC p \<or> prefix OLD_TEST p \<Longrightarrow> nodes G p = nodes F p"
  using old_not_new by (auto simp: same_sources_def)

lemma write_of_same:
  assumes "same_sources F G" "prefix OLD_SRC old \<or> prefix OLD_TEST old"
  shows "write_of G old new = write_of F old new"
proof -
  have "nodes G old = nodes F old" using assms by (rule same_sources_old)
  moreover have "deny_write G = deny_write F" using assms(1) by (simp add: same_sources_def)
  ultimately show ?thesis
    by (simp add: write_of_def exists_path_def migration_error_def migrated_content_def
        cong: option.case_cong node.case_cong)
qed

lemma write_of_new: "w \<in> set (write_of F old new) \<Longrightarrow> fst w = new"
  by (auto simp: write_of_def split: if_splits)

lemma disk_migrate_counted:
  "exists_path (disk st) old \<Longrightarrow>
   disk (migrate_counted old new st) = fold put_file (write_of (disk st) old new) (disk st)"
  by (cases "migration_error (disk st) old new")
     (simp_all add: migrate_counted_ok migrate_counted_error write_of_def)

lemma disk_process_entry:
  "disk (process_entry e st) =
   fold put_file (write_of (disk st) (joinpath OLD_SRC (fst e)) (joinpath NEW_SRC (snd e))) (disk st)"
  by (cases e) (simp add: process_entry_def disk_migrate_counted Let_def, simp add: write_of_def)

lemma same_sources_fold:
  "same_sources F G \<Longrightarrow> (\<And>w. w \<in> set ws \<Longrightarrow> in_new_tree (fst w)) \<Longrightarrow>
   same_sources F (fold put_file ws G)"
  by (induction ws arbitrary: G) (simp_all add: same_sources_put)

lemma disk_process_all_aux:
  "same_sources F (disk st) \<Longrightarrow>
   disk (process_all es st) = fold put_file (writes F es) (disk st)
   \<and> same_sources F (disk (process_all es st))"
proof (induction es arbitrary: st)
  case Nil
  then show ?case by (simp add: process_all_def writes_def)
next
  case (Cons e es)
  let ?w = "write_of F (joinpath OLD_SRC (fst e)) (joinpath NEW_SRC (snd e))"
  have w: "write_of (disk st) (joinpath OLD_SRC (fst e)) (joinpath NEW_SRC (snd e)) = ?w"
    using Cons.prems by (intro write_of_same) simp_all
  have d: "disk (process_entry e st) = fold put_file ?w (disk st)"
    by (simp add: disk_process_entry w)
  have s: "same_sources F (disk (process_entry e st))"
    unfolding d using Cons.prems
    by (rule same_sources_fold) (auto dest!: write_of_new simp: in_new_tree_def)
  have ih1: "disk (process_all es (process_entry e st))
      = fold put_file (writes F es) (disk (process_entry e st))"
    and ih2: "same_sources F (disk (process_all es (process_entry e st)))"
    using Cons.IH[OF s] by blast+
  have pa: "process_all (e # es) st = process_all es (process_entry e st)"
    by (simp add: process_all_def)
  show ?case
    unfolding pa using ih1 ih2 by (simp add: writes_def d)
qed

lemma disk_process_all:
  "same_sources F (disk st) \<Longrightarrow> disk (process_all es st) = fold put_file (writes F es) (disk st)"
  using disk_process_all_aux by blast

lemma same_sources_process_all:
  "same_sources F (disk st) \<Longrightarrow> same_sources F (disk (process_all es st))"
  using disk_process_all_aux by blast

lemma migration_error_same:
  assumes "same_sources F G" "prefix OLD_SRC old \<or> prefix OLD_TEST old"
  shows "migration_error G old new = migration_error F old new"
    and "exists_path G old = exists_path F old"
    and "migrated_content G old new = migrated_content F old new"
proof -
  have "nodes G old = nodes F old" using assms by (rule same_sources_old)
  moreover have "deny_write G = deny_write F" using assms(1) by (simp add: same_sources_def)
  ultimately show "migration_error G old new = migration_error F old new"
    and "exists_path G old = exists_path F old"
    and "migrated_content G old new = migrated_content F old new"
    by (simp_all add: exists_path_def migration_error_def migrated_content_def
        cong: option.case_cong node.case_cong)
qed

lemma process_entry_not_found:
  assumes "same_sources F (disk st)" "\<not> exists_path F (joinpath OLD_SRC (fst e))"
  shows "process_entry e st = st\<lparr>printed := printed st @ [NotFoundLine (fst e)]\<rparr>"
  using assms migration_error_same(2)[OF assms(1) disjI1[OF joinpath_prefix]]
  by (cases e) (simp add: process_entry_def Let_def)

lemma process_entry_fails:
  assumes "same_sources F (disk st)" "exists_path F (joinpath OLD_SRC (fst e))"
    "migration_error F (joinpath OLD_SRC (fst e)) (joinpath NEW_SRC (snd e)) = Some x"
  shows "process_entry e st =
     st\<lparr>fail_count := fail_count st + 1,
        printed := printed st @ [FailedLine (path_name (joinpath OLD_SRC (fst e))) x]\<rparr>"
  using assms migration_error_same[OF assms(1) disjI1[OF joinpath_prefix]]
  by (cases e) (simp add: process_entry_def Let_def migrate_counted_error)

lemma process_entry_migrates:
  assumes "same_sources F (disk st)" "exists_path F (joinpath OLD_SRC (fst e))"
    "migration_error F (joinpath OLD_SRC (fst e)) (joinpath NEW_SRC (snd e)) = None"
  shows "process_entry e st =
     st\<lparr>disk := put_file (joinpath NEW_SRC (snd e),
                  migrated_content F (joinpath OLD_SRC (fst e)) (joinpath NEW_SRC (snd e))) (disk st),
        success_count := success_count st + 1,
        printed := printed st @ [MigratedLine (path_name (joinpath OLD_SRC (fst e))) (joinpath NEW_SRC (snd e))]\<rparr>"
  using assms migration_error_same[OF assms(1) disjI1[OF joinpath_prefix]]
  by (cases e) (simp add: process_entry_def Let_def migrate_counted_ok)

lemma process_entry_counts:
  assumes "same_sources F (disk st)"
  shows "success_count (process_entry e st) = success_count st + (if entry_migrates F e then 1 else 0)
    \<and> fail_count (process_entry e st) = fail_count st + (if entry_fails F e then 1 else 0)
    \<and> printed (process_entry e st) = printed st @ entry_lines F e"
proof -
  consider (nf) "\<not> exists_path F (joinpath OLD_SRC (fst e))"
    | (bad) x where "exists_path F (joinpath OLD_SRC (fst e))"
        "migration_error F (joinpath OLD_SRC (fst e)) (joinpath NEW_SRC (snd e)) = Some x"
    | (ok) "exists_path F (joinpath OLD_SRC (fst e))"
        "migration_error F (joinpath OLD_SRC (fst e)) (joinpath NEW_SRC (snd e)) = None"
    by (cases "migration_error F (joinpath OLD_SRC (fst e)) (joinpath NEW_SRC (snd e))") auto
  then show ?thesis
  proof cases
    case nf
    then show ?thesis
      by (simp add: process_entry_not_found[OF assms] entry_migrates_def entry_fails_def
          entry_lines_def)
  next
    case bad
    then show ?thesis
      by (simp add: process_entry_fails[OF assms] entry_migrates_def entry_fails_def
          entry_lines_def)
  next
    case ok
    then show ?thesis
      by (simp add: process_entry_migrates[OF assms] entry_migrates_def entry_fails_def
          entry_lines_def)
  qed
qed

lemma process_all_counts:
  assumes "same_sources F (disk st)"
  shows "success_count (process_all es st) = success_count st + int (length (filter (entry_migrates F) es))
    \<and> fail_count (process_all es st) = fail_count st + int (length (filter (entry_fails F) es))
    \<and> printed (process_all es st) = printed st @ concat (map (entry_lines F) es)"
  using assms
proof (induction es arbitrary: st)
  case Nil
  then show ?case by (simp add: process_all_def)
next
  case (Cons e es)
  have "same_sources F (disk (process_all [e] st))"
    using Cons.prems by (rule same_sources_process_all)
  then have s: "same_sources F (disk (process_entry e st))"
    by (simp add: process_all_def)
  have pa: "process_all (e # es) st = process_all es (process_entry e st)"
    by (simp add: process_all_def)
  show ?case
    unfolding pa using Cons.IH[OF s] process_entry_counts[OF Cons.prems, of e]
    by simp
qed

lemma process_all_append:
  "process_all (xs @ ys) st = process_all ys (process_all xs st)"
  by (simp add: process_all_def)

lemma fold_put_file:
  "fold put_file ws F =
   F\<lparr>nodes := nodes F ++ map_of (rev (map (\<lambda>w. (fst w, File (snd w))) ws))\<rparr>"
proof (induction ws arbitrary: F)
  case Nil
  then show ?case by simp
next
  case (Cons w ws)
  have "(nodes F)(fst w \<mapsto> File (snd w)) ++ m = nodes F ++ ([fst w \<mapsto> File (snd w)] ++ m)" for m
    by (auto simp: fun_eq_iff map_add_def split: option.split)
  then show ?case
    by (simp add: Cons.IH) (simp add: put_file_def)
qed

lemma map_add_twice: "(m ++ n) ++ n = m ++ n"
  by (auto simp: fun_eq_iff map_add_def split: option.split)

lemma fold_put_file_twice: "fold put_file ws (fold put_file ws F) = fold put_file ws F"
  by (simp add: fold_put_file map_add_twice)

lemma new_roots_incomparable:
  "\<not> prefix NEW_SRC NEW_TEST" "\<not> prefix NEW_TEST NEW_SRC"
  by (simp_all add: NEW_SRC_def NEW_TEST_def)

lemma same_sources_initial [simp]: "same_sources F (disk (initial_run F))"
  by (simp add: initial_run_def)

lemma read_text_iff:
  "read_text F p = Inr c \<longleftrightarrow> nodes F p = Some (File c)"
  by (auto simp: read_text_def split: option.splits node.splits)

lemma migration_error_iff:
  assumes "exists_path F old"
  shows "migration_error F old new = Some x \<longleftrightarrow>
     (read_text F old = Inl x
      \<or> (\<exists>c. read_text F old = Inr c
            \<and> write_text F new (update_package_and_imports c new) = Inl x))"
  using assms
  by (auto simp: migration_error_def read_text_def write_text_def exists_path_def
      split: option.splits node.splits)

lemma migration_error_None_iff:
  "migration_error F old new = None \<longleftrightarrow>
     (\<exists>c. nodes F old = Some (File c)) \<and> deny_write F new = None"
  by (auto simp: migration_error_def split: option.splits node.splits)

lemma writes_append: "writes F (xs @ ys) = writes F xs @ writes F ys"
  by (simp add: writes_def)

lemma writes_same: "same_sources F G \<Longrightarrow> writes G es = writes F es"
  unfolding writes_def
  by (intro arg_cong[where f = concat] map_cong refl write_of_same) simp_all

lemma all_writes_same: "same_sources F G \<Longrightarrow> all_writes G = all_writes F"
  by (simp add: all_writes_def writes_same write_of_same)

lemma writes_in_new: "w \<in> set (writes F es) \<Longrightarrow> prefix NEW_SRC (fst w)"
  by (auto simp: writes_def dest!: write_of_new)

lemma disk_migrate_tests:
  assumes "same_sources F (disk st)"
  shows "disk (migrate_tests st) =
     fold put_file (write_of F (joinpath OLD_TEST ''SellTheOldCarApplicationTests.java'')
         (joinpath NEW_TEST ''OldCarApplicationTests.java'')) (disk st)"
proof -
  have w: "write_of (disk st) (joinpath OLD_TEST ''SellTheOldCarApplicationTests.java'')
         (joinpath NEW_TEST ''OldCarApplicationTests.java'')
       = write_of F (joinpath OLD_TEST ''SellTheOldCarApplicationTests.java'')
         (joinpath NEW_TEST ''OldCarApplicationTests.java'')"
    using assms by (intro write_of_same) simp_all
  show ?thesis
  proof (cases "exists_path (disk st) (joinpath OLD_TEST ''SellTheOldCarApplicationTests.java'')")
    case True
    then show ?thesis by (simp add: migrate_tests_def disk_migrate_counted w)
  next
    case False
    then show ?thesis using w by (simp add: migrate_tests_def write_of_def)
  qed
qed

lemma disk_main: "disk (main F) = fold put_file (all_writes F) F"
proof -
  have 1: "disk (process_all FILE_MAPPINGS (initial_run F)) = fold put_file (writes F FILE_MAPPINGS) F"
    and 2: "same_sources F (disk (process_all FILE_MAPPINGS (initial_run F)))"
    using disk_process_all[OF same_sources_initial, where es = FILE_MAPPINGS and F = F]
      same_sources_process_all[OF same_sources_initial, where es = FILE_MAPPINGS and F = F]
    by (simp_all add: initial_run_def)
  show ?thesis
    by (simp add: main_def Let_def disk_migrate_tests[OF 2] 1 all_writes_def)
qed

lemma all_writes_in_new: "w \<in> set (all_writes F) \<Longrightarrow> in_new_tree (fst w)"
  by (auto simp: all_writes_def in_new_tree_def dest!: writes_in_new write_of_new)

lemma same_sources_main: "same_sources F (disk (main F))"
  unfolding disk_main by (rule same_sources_fold) (simp_all add: all_writes_in_new)

lemma nodes_fold_put_notin:
  "p \<notin> fst ` set ws \<Longrightarrow> nodes (fold put_file ws F) p = nodes F p"
  by (induction ws arbitrary: F) (auto simp: put_file_def)

lemma deny_write_fold_put [simp]: "deny_write (fold put_file ws F) = deny_write F"
  by (induction ws arbitrary: F) (auto simp: put_file_def)

lemma migrate_tests_counts:
  assumes "same_sources F (disk st)"
  shows "success_count (migrate_tests st) = success_count st +
       (if exists_path F (joinpath OLD_TEST ''SellTheOldCarApplicationTests.java'')
           \<and> migration_error F (joinpath OLD_TEST ''SellTheOldCarApplicationTests.java'')
                (joinpath NEW_TEST ''OldCarApplicationTests.java'') = None then 1 else 0)
    \<and> fail_count (migrate_tests st) = fail_count st +
       (if exists_path F (joinpath OLD_TEST ''SellTheOldCarApplicationTests.java'')
           \<and> migration_error F (joinpath OLD_TEST ''SellTheOldCarApplicationTests.java'')
                (joinpath NEW_TEST ''OldCarApplicationTests.java'') \<noteq> None then 1 else 0)
    \<and> printed (migrate_tests st) = printed st @
       (if exists_path F (joinpath OLD_TEST ''SellTheOldCarApplicationTests.java'')
        then (case migration_error F (joinpath OLD_TEST ''SellTheOldCarApplicationTests.java'')
                (joinpath NEW_TEST ''OldCarApplicationTests.java'') of
                Some x \<Rightarrow> [FailedLine (path_name (joinpath OLD_TEST ''SellTheOldCarApplicationTests.java'')) x]
              | None \<Rightarrow> [MigratedLine (path_name (joinpath OLD_TEST ''SellTheOldCarApplicationTests.java''))
                          (joinpath NEW_TEST ''OldCarApplicationTests.java'')])
        else [])"
proof -
  note m = migration_error_same[OF assms disjI2[OF joinpath_prefix]]
  show ?thesis
  proof (cases "migration_error F (joinpath OLD_TEST ''SellTheOldCarApplicationTests.java'')
                (joinpath NEW_TEST ''OldCarApplicationTests.java'')")
    case None
    then show ?thesis
      by (simp add: migrate_tests_def Let_def m migrate_counted_ok)
  next
    case (Some x)
    then show ?thesis
      by (simp add: migrate_tests_def Let_def m migrate_counted_error)
  qed
qed

lemma main_counts_same:
  assumes "same_sources F G"
  shows "success_count (main G) = success_count (main F)"
    and "fail_count (main G) = fail_count (main F)"
    and "printed (main G) = printed (main F)"
proof -
  have G: "same_sources F (disk (process_all FILE_MAPPINGS (initial_run G)))"
    by (rule same_sources_process_all) (simp add: initial_run_def assms)
  have F: "same_sources F (disk (process_all FILE_MAPPINGS (initial_run F)))"
    by (rule same_sources_process_all) simp
  have cG: "same_sources F (disk (initial_run G))" by (simp add: initial_run_def assms)
  have cF: "same_sources F (disk (initial_run F))" by simp
  note pG = process_all_counts[OF cG, of FILE_MAPPINGS]
  note pF = process_all_counts[OF cF, of FILE_MAPPINGS]
  note tG = migrate_tests_counts[OF G]
  note tF = migrate_tests_counts[OF F]
  have i: "success_count (initial_run G) = success_count (initial_run F)"
    "fail_count (initial_run G) = fail_count (initial_run F)"
    "printed (initial_run G) = printed (initial_run F)"
    by (simp_all add: initial_run_def)
  have s: "success_count (migrate_tests (process_all FILE_MAPPINGS (initial_run G)))
      = success_count (migrate_tests (process_all FILE_MAPPINGS (initial_run F)))"
    using pG pF tG tF i by presburger
  have f: "fail_count (migrate_tests (process_all FILE_MAPPINGS (initial_run G)))
      = fail_count (migrate_tests (process_all FILE_MAPPINGS (initial_run F)))"
    using pG pF tG tF i by presburger
  have p: "printed (migrate_tests (process_all FILE_MAPPINGS (initial_run G)))
      = printed (migrate_tests (process_all FILE_MAPPINGS (initial_run F)))"
    using pG pF tG tF i by simp
  show "success_count (main G) = success_count (main F)"
    and "fail_count (main G) = fail_count (main F)"
    and "printed (main G) = printed (main F)"
    using s f p by (simp_all add: main_def Let_def)
qed

lemma same_sources_pre: "same_sources F (disk (process_all pre (initial_run F)))"
  by (rule same_sources_process_all) simp

lemma printed_main:
  "printed (main F) =
   printed (migrate_tests (process_all FILE_MAPPINGS (initial_run F)))
   @ summary (success_count (main F)) (fail_count (main F))"
  by (simp add: main_def Let_def)

lemma entry_lines_printed:
  assumes "e \<in> set FILE_MAPPINGS" "l \<in> set (entry_lines F e)"
  shows "l \<in> set (printed (main F))"
proof -
  have "l \<in> set (printed (process_all FILE_MAPPINGS (initial_run F)))"
    using assms process_all_counts[OF same_sources_initial[of F], where es = FILE_MAPPINGS]
    by auto
  moreover have "same_sources F (disk (process_all FILE_MAPPINGS (initial_run F)))"
    by (rule same_sources_pre)
  ultimately show ?thesis
    using migrate_tests_counts[of F "process_all FILE_MAPPINGS (initial_run F)"]
    by (simp add: printed_main)
qed

lemma main_fail_count:
  "fail_count (main F) =
     int (length (filter (entry_fails F) FILE_MAPPINGS))
     + (if exists_path F (joinpath OLD_TEST ''SellTheOldCarApplicationTests.java'')
           \<and> migration_error F (joinpath OLD_TEST ''SellTheOldCarApplicationTests.java'')
                (joinpath NEW_TEST ''OldCarApplicationTests.java'') \<noteq> None then 1 else 0)"
  using process_all_counts[OF same_sources_initial[of F], where es = FILE_MAPPINGS]
    migrate_tests_counts[OF same_sources_pre[of F FILE_MAPPINGS]]
  by (simp add: main_def Let_def initial_run_def)

lemma main_success_count:
  "success_count (main F) =
     int (length (filter (entry_migrates F) FILE_MAPPINGS))
     + (if exists_path F (joinpath OLD_TEST ''SellTheOldCarApplicationTests.java'')
           \<and> migration_error F (joinpath OLD_TEST ''SellTheOldCarApplicationTests.java'')
                (joinpath NEW_TEST ''OldCarApplicationTests.java'') = None then 1 else 0)"
  using process_all_counts[OF same_sources_initial[of F], where es = FILE_MAPPINGS]
    migrate_tests_counts[OF same_sources_pre[of F FILE_MAPPINGS]]
  by (simp add: main_def Let_def initial_run_def)

lemma write_of_file:
  assumes "nodes F old = Some (File c)" "deny_write F new = None"
  shows "write_of F old new = [(new, update_package_and_imports c new)]"
    and "migration_error F old new = None"
    and "exists_path F old"
    and "migrated_content F old new = update_package_and_imports c new"
  using assms
  by (simp_all add: write_of_def migration_error_def exists_path_def migrated_content_def)

lemma writes_Cons:
  "writes F (e # es) = write_of F (joinpath OLD_SRC (fst e)) (joinpath NEW_SRC (snd e)) @ writes F es"
  by (simp add: writes_def)

lemma writes_keys:
  "fst ` set (writes F es) \<subseteq> set (map (\<lambda>e. joinpath NEW_SRC (snd e)) es)"
  by (auto simp: writes_def dest!: write_of_new)

lemma nodes_fold_put_last:
  assumes "fst w \<notin> fst ` set ws'"
  shows "nodes (fold put_file (ws @ w # ws') F) (fst w) = Some (File (snd w))"
  using assms by (simp add: nodes_fold_put_notin) (simp add: put_file_def)

lemma split3: "xs = take i xs @ take j (drop i xs) @ drop (i + j) xs"
  by (metis append_assoc append_take_drop_id take_add)

lemma chat_block:
  "take 6 (drop 33 FILE_MAPPINGS) =
   [(''model/Chat.java'', ''entity/chat/Chat.java''),
    (''model/ChatParticipant.java'', ''entity/chat/ChatParticipant.java''),
    (''model/Message.java'', ''entity/chat/Message.java''),
    (''model/MessageStatus.java'', ''entity/chat/MessageStatus.java''),
    (''model/UserStatus.java'', ''entity/chat/UserStatus.java''),
    (''model/chat/Chat.java'', ''entity/chat/Chat.java'')]"
  by (simp add: FILE_MAPPINGS_def)

lemma table_split_chat:
  "FILE_MAPPINGS = take 33 FILE_MAPPINGS @ (''model/Chat.java'', ''entity/chat/Chat.java'') #
    [(''model/ChatParticipant.java'', ''entity/chat/ChatParticipant.java''),
     (''model/Message.java'', ''entity/chat/Message.java''),
     (''model/MessageStatus.java'', ''entity/chat/MessageStatus.java''),
     (''model/UserStatus.java'', ''entity/chat/UserStatus.java'')]
    @ (''model/chat/Chat.java'', ''entity/chat/Chat.java'') # drop 39 FILE_MAPPINGS"
  using split3[of FILE_MAPPINGS 33 6] by (simp add: chat_block)

lemma chat_last:
  "joinpath NEW_SRC ''entity/chat/Chat.java''
     \<notin> set (map (\<lambda>e. joinpath NEW_SRC (snd e)) (drop 39 FILE_MAPPINGS))"
  by (simp add: FILE_MAPPINGS_def joinpath_def)

lemma entry_fails_counted:
  assumes "e \<in> set FILE_MAPPINGS" "entry_fails F e"
  shows "0 < fail_count (main F)"
proof -
  have "filter (entry_fails F) FILE_MAPPINGS \<noteq> []"
    using assms by (auto simp: filter_empty_conv)
  then show ?thesis by (simp add: main_fail_count)
qed

lemma chat_names:
  "path_name (joinpath OLD_SRC ''model/Chat.java'') = ''Chat.java''"
  "path_name (joinpath OLD_SRC ''model/chat/Chat.java'') = ''Chat.java''"
  by (simp_all add: path_name_def joinpath_def)

lemma broken_chat_fs_nodes:
  "nodes broken_chat_fs (joinpath OLD_SRC ''model/Chat.java'') = Some (Unreadable ''invalid start byte'')"
  "nodes broken_chat_fs (joinpath OLD_SRC ''model/chat/Chat.java'')
     = Some (File (str ''package com.CarSelling.Sell.the.old.Car.model.chat;''))"
  by (simp_all add: broken_chat_fs_def joinpath_def)

lemma chat_fs_nodes:
  "nodes chat_fs (joinpath OLD_SRC ''model/Chat.java'')
     = Some (File (str ''package com.CarSelling.Sell.the.old.Car.model;''))"
  "nodes chat_fs (joinpath OLD_SRC ''model/chat/Chat.java'')
     = Some (File (str ''package com.CarSelling.Sell.the.old.Car.model.chat;'' @ [10]
                   @ str ''import com.CarSelling.Sell.the.old.Car.model.User;''))"
  by (simp_all add: chat_fs_def joinpath_def)

lemma table_head:
  "FILE_MAPPINGS = [] @ (''SellTheOldCarApplication.java'', ''OldCarApplication.java'') # tl FILE_MAPPINGS"
  by (simp add: FILE_MAPPINGS_def)

text \<open>When \<open>exists\<close> does not raise, the run is the one of \<open>main\<close>.\<close>

lemma process_entry_raising_None:
  assumes "E (joinpath OLD_SRC (fst e)) = None"
  shows "process_entry_raising E e st = Inr (process_entry e st)"
  using assms by (cases e) (simp add: process_entry_raising_def process_entry_def exists_raising_def Let_def)

lemma process_all_raising_None:
  assumes "list_all (\<lambda>e. E (joinpath OLD_SRC (fst e)) = None) es"
  shows "process_all_raising E es st = Inr (process_all es st)"
  using assms
proof (induction es arbitrary: st)
  case Nil
  then show ?case by (simp add: process_all_def)
next
  case (Cons e es)
  then show ?case by (simp add: process_entry_raising_None process_all_def)
qed

lemma migrate_tests_raising_None:
  assumes "E (joinpath OLD_TEST ''SellTheOldCarApplicationTests.java'') = None"
  shows "migrate_tests_raising E st = Inr (migrate_tests st)"
  using assms by (simp add: migrate_tests_raising_def migrate_tests_def exists_raising_def Let_def)

lemma main_raising_None:
  assumes "list_all (\<lambda>e. E (joinpath OLD_SRC (fst e)) = None) FILE_MAPPINGS"
    "E (joinpath OLD_TEST ''SellTheOldCarApplicationTests.java'') = None"
  shows "main_raising E F = Inr (main F)"
  by (simp add: main_raising_def main_def Let_def process_all_raising_None[OF assms(1)]
      migrate_tests_raising_None[of E, OF assms(2)])

lemma main_summary_lines:
  "printed (main F) =
     printed (migrate_tests (process_all FILE_MAPPINGS (initial_run F)))
     @ [BlankRule, Text ''Migration completed!'', SuccessLine (success_count (main F))]
     @ (if 0 < fail_count (main F) then [FailCountLine (fail_count (main F))] else [])
     @ [Rule, NextSteps]"
  by (simp add: main_def Let_def summary_def)









section \<open>The end-to-end scenario (C1)\<close>

text \<open>
  C1.  The scenario of the specification, run on the code: a file with the lines
  \<open>package com.CarSelling.Sell.the.old.Car.model;\<close> and
  \<open>import com.CarSelling.Sell.the.old.Car.dto.UserDTO.LoginRequest;\<close>.  The import line
  comes out as \<open>import com.carselling.oldcar.dto.auth.LoginRequest;\<close>, but the package
  line comes out as \<open>package com.carselling.oldcar.model;\<close>: the key of the rule
  \<open>.model.\<close> \<open>\<rightarrow>\<close> \<open>.entity.\<close> ends with a dot, and in the declaration \<open>model\<close> is followed
  by the semicolon.  The result does not contain \<open>package com.carselling.oldcar.entity;\<close>.
\<close>

theorem C1_scenario_package_stays_model:
  "update_package_and_imports
     (str ''package com.CarSelling.Sell.the.old.Car.model;'' @ [10]
      @ str ''import com.CarSelling.Sell.the.old.Car.dto.UserDTO.LoginRequest;'' @ [10]) fp
   = str ''package com.carselling.oldcar.model;'' @ [10]
     @ str ''import com.carselling.oldcar.dto.auth.LoginRequest;'' @ [10]
   \<and> \<not> contains (str ''package com.carselling.oldcar.entity;'')
        (update_package_and_imports
          (str ''package com.CarSelling.Sell.the.old.Car.model;'' @ [10]
           @ str ''import com.CarSelling.Sell.the.old.Car.dto.UserDTO.LoginRequest;'' @ [10]) fp)"
  by (simp add: eval_simps)

section \<open>The mapping table (C4)\<close>

text \<open>
  C4, as stated, fails: the entries \<open>model/Chat.java\<close> and \<open>model/chat/Chat.java\<close> are
  two entries with different old paths and the same new path \<open>entity/chat/Chat.java\<close>.
\<close>

theorem C4_new_path_shared:
  "(''model/Chat.java'', ''entity/chat/Chat.java'') \<in> set FILE_MAPPINGS
   \<and> (''model/chat/Chat.java'', ''entity/chat/Chat.java'') \<in> set FILE_MAPPINGS
   \<and> ''model/Chat.java'' \<noteq> ''model/chat/Chat.java''"
proof -
  have "(''model/Chat.java'', ''entity/chat/Chat.java'') \<in> set FILE_MAPPINGS"
    "(''model/chat/Chat.java'', ''entity/chat/Chat.java'') \<in> set FILE_MAPPINGS"
    unfolding FILE_MAPPINGS_def by ((rule in_set_hd | rule in_set_tl)+)+
  then show ?thesis by simp
qed

text \<open>
  C4, amended.  The table has 78 entries.  No two entries share an old path.  New paths
  are shared by the five chat entities: each of \<open>model/X.java\<close> and
  \<open>model/chat/X.java\<close> (\<open>X\<close> one of \<open>Chat\<close>, \<open>ChatParticipant\<close>, \<open>Message\<close>,
  \<open>MessageStatus\<close>, \<open>UserStatus\<close>) goes to \<open>entity/chat/X.java\<close>; once the five entries
  \<open>model/X.java\<close> are set aside, no two of the remaining entries share a new path.
\<close>

theorem C4_old_paths_unique_new_paths_shared_by_chat_entities:
  "length FILE_MAPPINGS = 78
   \<and> distinct (map fst FILE_MAPPINGS)
   \<and> distinct (map snd (filter (\<lambda>e. fst e \<notin> set [''model/Chat.java'',
          ''model/ChatParticipant.java'', ''model/Message.java'', ''model/MessageStatus.java'',
          ''model/UserStatus.java'']) FILE_MAPPINGS))
   \<and> (''model/Chat.java'', ''entity/chat/Chat.java'') \<in> set FILE_MAPPINGS
   \<and> (''model/chat/Chat.java'', ''entity/chat/Chat.java'') \<in> set FILE_MAPPINGS
   \<and> (''model/ChatParticipant.java'', ''entity/chat/ChatParticipant.java'') \<in> set FILE_MAPPINGS
   \<and> (''model/chat/ChatParticipant.java'', ''entity/chat/ChatParticipant.java'') \<in> set FILE_MAPPINGS
   \<and> (''model/Message.java'', ''entity/chat/Message.java'') \<in> set FILE_MAPPINGS
   \<and> (''model/chat/Message.java'', ''entity/chat/Message.java'') \<in> set FILE_MAPPINGS
   \<and> (''model/MessageStatus.java'', ''entity/chat/MessageStatus.java'') \<in> set FILE_MAPPINGS
   \<and> (''model/chat/MessageStatus.java'', ''entity/chat/MessageStatus.java'') \<in> set FILE_MAPPINGS
   \<and> (''model/UserStatus.java'', ''entity/chat/UserStatus.java'') \<in> set FILE_MAPPINGS
   \<and> (''model/chat/UserStatus.java'', ''entity/chat/UserStatus.java'') \<in> set FILE_MAPPINGS"
proof -
  have len: "length FILE_MAPPINGS = 78"
    by (simp add: FILE_MAPPINGS_def)
  have "distinct (map (\<lambda>s. take 1 (drop 8 s) @ take 1 (drop 11 s) @ take 1 (drop 19 s)
            @ take 1 (drop 30 s)) (map fst FILE_MAPPINGS))"
    by (simp add: FILE_MAPPINGS_def)
  then have old: "distinct (map fst FILE_MAPPINGS)"
    by (rule distinct_by_key)
  have "distinct (map (\<lambda>s. take 1 (drop 8 s) @ take 1 (drop 11 s) @ take 1 (drop 19 s)
            @ take 1 (drop 30 s))
          (map snd (filter (\<lambda>e. fst e \<notin> set [''model/Chat.java'',
          ''model/ChatParticipant.java'', ''model/Message.java'', ''model/MessageStatus.java'',
          ''model/UserStatus.java'']) FILE_MAPPINGS)))"
    by (simp add: FILE_MAPPINGS_def)
  then have new: "distinct (map snd (filter (\<lambda>e. fst e \<notin> set [''model/Chat.java'',
          ''model/ChatParticipant.java'', ''model/Message.java'', ''model/MessageStatus.java'',
          ''model/UserStatus.java'']) FILE_MAPPINGS))"
    by (rule distinct_by_key)
  have shared:
    "(''model/Chat.java'', ''entity/chat/Chat.java'') \<in> set FILE_MAPPINGS"
    "(''model/chat/Chat.java'', ''entity/chat/Chat.java'') \<in> set FILE_MAPPINGS"
    "(''model/ChatParticipant.java'', ''entity/chat/ChatParticipant.java'') \<in> set FILE_MAPPINGS"
    "(''model/chat/ChatParticipant.java'', ''entity/chat/ChatParticipant.java'') \<in> set FILE_MAPPINGS"
    "(''model/Message.java'', ''entity/chat/Message.java'') \<in> set FILE_MAPPINGS"
    "(''model/chat/Message.java'', ''entity/chat/Message.java'') \<in> set FILE_MAPPINGS"
    "(''model/MessageStatus.java'', ''entity/chat/MessageStatus.java'') \<in> set FILE_MAPPINGS"
    "(''model/chat/MessageStatus.java'', ''entity/chat/MessageStatus.java'') \<in> set FILE_MAPPINGS"
    "(''model/UserStatus.java'', ''entity/chat/UserStatus.java'') \<in> set FILE_MAPPINGS"
    "(''model/chat/UserStatus.java'', ''entity/chat/UserStatus.java'') \<in> set FILE_MAPPINGS"
    unfolding FILE_MAPPINGS_def by ((rule in_set_hd | rule in_set_tl)+)+
  from len old new shared show ?thesis by blast
qed

section \<open>The order of the literal rules (C8)\<close>

text \<open>
  C8.  For every input text, applying the five literal rules of \<open>replacements\<close> in any
  order (any list with the same rules, each as often as in the code's list) gives the same
  result as applying them in the order of the code.  Every key starts with the new package
  name, which cannot start inside itself, and no key or value can be mistaken for the start
  of another key; so two rules never compete for the same piece of text.
\<close>

theorem C8_rule_order_is_irrelevant:
  assumes "mset rules = mset replacements"
  shows "apply_replacements rules content = apply_replacements replacements content"
proof -
  have "fold (\<lambda>(old, new) c. replace old new c) replacements
      = fold (\<lambda>(old, new) c. replace old new c) rules"
    using replacements_commute assms[symmetric] by (rule fold_multiset_equiv)
  then show ?thesis by (simp add: apply_replacements_def)
qed

theorem C8_rule_order_is_irrelevant_witness:
  "mset (rev replacements) = mset replacements
   \<and> apply_replacements (rev replacements)
        (str ''import com.carselling.oldcar.model.User;'')
     = apply_replacements replacements (str ''import com.carselling.oldcar.model.User;'')"
  using C8_rule_order_is_irrelevant[of "rev replacements" "str ''import com.carselling.oldcar.model.User;''"]
  by simp

section \<open>The package declaration (C2)\<close>




section \<open>The import statements (C3)\<close>




section \<open>Missing source files (C5)\<close>



section \<open>Failures of one file (C6)\<close>

text \<open>
  C6, as stated, fails in its last part: there is a fatal error.  \<open>exists\<close> is called
  outside the \<open>try\<close>; when it raises for the first source path of the table, the run ends
  there with that exception, after the three opening lines and without a summary.
\<close>

theorem C6_exists_raises_and_the_run_aborts:
  "main_raising no_search_fs empty_fs = Inl (OSError ''Permission denied'', initial_run empty_fs)"
proof -
  have "process_all_raising no_search_fs
          ([] @ (''SellTheOldCarApplication.java'', ''OldCarApplication.java'') # tl FILE_MAPPINGS)
          (initial_run empty_fs)
        = Inl (OSError ''Permission denied'', initial_run empty_fs)"
    by (simp add: process_entry_raising_def exists_raising_def no_search_fs_def Let_def)
  then show ?thesis
    unfolding main_raising_def by (subst table_head) simp
qed

text \<open>
  C6, amended.  When \<open>exists\<close> raises for none of the source paths of the table and not for
  the test file, the run is completed.  The completed run ends with the summary: the rule
  after an empty line, "Migration completed!", the number of files migrated, the number
  of failures if it is positive, a rule and the next steps.  An entry whose source exists
  and whose read or write raises \<open>x\<close>: the loop over the table is the loop over the entries
  before it, then one more failure and the line "Failed to migrate" with the file name
  and \<open>x\<close> (the disk and the success counter stay as they are), then the loop over the
  entries after it; the failure counter of the run is positive and is printed.
\<close>

theorem C6_failure_is_contained_and_summary_printed:
  "(list_all (\<lambda>e. E (joinpath OLD_SRC (fst e)) = None) FILE_MAPPINGS
      \<and> E (joinpath OLD_TEST ''SellTheOldCarApplicationTests.java'') = None
     \<longrightarrow> main_raising E F = Inr (main F))
   \<and> printed (main F) =
        printed (migrate_tests (process_all FILE_MAPPINGS (initial_run F)))
        @ [BlankRule, Text ''Migration completed!'', SuccessLine (success_count (main F))]
        @ (if 0 < fail_count (main F) then [FailCountLine (fail_count (main F))] else [])
        @ [Rule, NextSteps]
   \<and> (FILE_MAPPINGS = pre @ (old_rel_path, new_rel_path) # post
        \<and> exists_path F (joinpath OLD_SRC old_rel_path)
        \<and> (read_text F (joinpath OLD_SRC old_rel_path) = Inl x
            \<or> (\<exists>c. read_text F (joinpath OLD_SRC old_rel_path) = Inr c
                  \<and> write_text F (joinpath NEW_SRC new_rel_path)
                       (update_package_and_imports c (joinpath NEW_SRC new_rel_path)) = Inl x))
        \<longrightarrow> process_all FILE_MAPPINGS (initial_run F) =
              process_all post
                ((process_all pre (initial_run F))
                   \<lparr>fail_count := fail_count (process_all pre (initial_run F)) + 1,
                    printed := printed (process_all pre (initial_run F))
                               @ [FailedLine (path_name (joinpath OLD_SRC old_rel_path)) x]\<rparr>)
            \<and> 0 < fail_count (main F)
            \<and> FailCountLine (fail_count (main F)) \<in> set (printed (main F)))"
proof (intro conjI impI)
  assume "list_all (\<lambda>e. E (joinpath OLD_SRC (fst e)) = None) FILE_MAPPINGS
      \<and> E (joinpath OLD_TEST ''SellTheOldCarApplicationTests.java'') = None"
  then show "main_raising E F = Inr (main F)" using main_raising_None[of E F] by blast
next
  show "printed (main F) =
        printed (migrate_tests (process_all FILE_MAPPINGS (initial_run F)))
        @ [BlankRule, Text ''Migration completed!'', SuccessLine (success_count (main F))]
        @ (if 0 < fail_count (main F) then [FailCountLine (fail_count (main F))] else [])
        @ [Rule, NextSteps]"
    by (rule main_summary_lines)
next
  assume a: "FILE_MAPPINGS = pre @ (old_rel_path, new_rel_path) # post
        \<and> exists_path F (joinpath OLD_SRC old_rel_path)
        \<and> (read_text F (joinpath OLD_SRC old_rel_path) = Inl x
            \<or> (\<exists>c. read_text F (joinpath OLD_SRC old_rel_path) = Inr c
                  \<and> write_text F (joinpath NEW_SRC new_rel_path)
                       (update_package_and_imports c (joinpath NEW_SRC new_rel_path)) = Inl x))"
  then have t: "FILE_MAPPINGS = pre @ (old_rel_path, new_rel_path) # post"
    and ex: "exists_path F (joinpath OLD_SRC old_rel_path)" by simp_all
  have m: "migration_error F (joinpath OLD_SRC old_rel_path) (joinpath NEW_SRC new_rel_path) = Some x"
    using a by (simp add: migration_error_iff[OF ex])
  have "process_entry (old_rel_path, new_rel_path) (process_all pre (initial_run F)) =
      (process_all pre (initial_run F))
           \<lparr>fail_count := fail_count (process_all pre (initial_run F)) + 1,
            printed := printed (process_all pre (initial_run F))
                       @ [FailedLine (path_name (joinpath OLD_SRC old_rel_path)) x]\<rparr>"
    using process_entry_fails[OF same_sources_pre[of F pre], where e = "(old_rel_path, new_rel_path)" and x = x] ex m
    by simp
  then show "process_all FILE_MAPPINGS (initial_run F) =
      process_all post
        ((process_all pre (initial_run F))
           \<lparr>fail_count := fail_count (process_all pre (initial_run F)) + 1,
            printed := printed (process_all pre (initial_run F))
                       @ [FailedLine (path_name (joinpath OLD_SRC old_rel_path)) x]\<rparr>)"
    by (simp add: t process_all_def)
  have "entry_fails F (old_rel_path, new_rel_path)"
    using ex m by (simp add: entry_fails_def)
  then have "filter (entry_fails F) FILE_MAPPINGS \<noteq> []"
    by (auto simp: t filter_empty_conv)
  then show f: "0 < fail_count (main F)"
    by (simp add: main_fail_count)
  show "FailCountLine (fail_count (main F)) \<in> set (printed (main F))"
    using f by (subst main_summary_lines) simp
qed

theorem C6_failure_is_contained_and_summary_printed_witness:
  "list_all (\<lambda>e. (Map.empty :: stat_error) (joinpath OLD_SRC (fst e)) = None) FILE_MAPPINGS
   \<and> (Map.empty :: stat_error) (joinpath OLD_TEST ''SellTheOldCarApplicationTests.java'') = None
   \<and> FILE_MAPPINGS = take 33 FILE_MAPPINGS @ (''model/Chat.java'', ''entity/chat/Chat.java'') #
    [(''model/ChatParticipant.java'', ''entity/chat/ChatParticipant.java''),
     (''model/Message.java'', ''entity/chat/Message.java''),
     (''model/MessageStatus.java'', ''entity/chat/MessageStatus.java''),
     (''model/UserStatus.java'', ''entity/chat/UserStatus.java'')]
    @ (''model/chat/Chat.java'', ''entity/chat/Chat.java'') # drop 39 FILE_MAPPINGS
   \<and> exists_path broken_chat_fs (joinpath OLD_SRC ''model/Chat.java'')
   \<and> read_text broken_chat_fs (joinpath OLD_SRC ''model/Chat.java'')
       = Inl (ReadError ''invalid start byte'')
   \<and> main_raising Map.empty broken_chat_fs = Inr (main broken_chat_fs)
   \<and> printed (main broken_chat_fs) =
        printed (migrate_tests (process_all FILE_MAPPINGS (initial_run broken_chat_fs)))
        @ [BlankRule, Text ''Migration completed!'', SuccessLine (success_count (main broken_chat_fs)),
           FailCountLine (fail_count (main broken_chat_fs)), Rule, NextSteps]
   \<and> process_all FILE_MAPPINGS (initial_run broken_chat_fs) =
      process_all
        ([(''model/ChatParticipant.java'', ''entity/chat/ChatParticipant.java''),
          (''model/Message.java'', ''entity/chat/Message.java''),
          (''model/MessageStatus.java'', ''entity/chat/MessageStatus.java''),
          (''model/UserStatus.java'', ''entity/chat/UserStatus.java'')]
         @ (''model/chat/Chat.java'', ''entity/chat/Chat.java'') # drop 39 FILE_MAPPINGS)
        ((process_all (take 33 FILE_MAPPINGS) (initial_run broken_chat_fs))
           \<lparr>fail_count := fail_count (process_all (take 33 FILE_MAPPINGS) (initial_run broken_chat_fs)) + 1,
            printed := printed (process_all (take 33 FILE_MAPPINGS) (initial_run broken_chat_fs))
                       @ [FailedLine (path_name (joinpath OLD_SRC ''model/Chat.java''))
                            (ReadError ''invalid start byte'')]\<rparr>)
   \<and> 0 < fail_count (main broken_chat_fs)"
proof -
  have n: "list_all (\<lambda>e. (Map.empty :: stat_error) (joinpath OLD_SRC (fst e)) = None) FILE_MAPPINGS"
    "(Map.empty :: stat_error) (joinpath OLD_TEST ''SellTheOldCarApplicationTests.java'') = None"
    by (simp_all add: list_all_iff)
  have e: "exists_path broken_chat_fs (joinpath OLD_SRC ''model/Chat.java'')"
    by (simp add: exists_path_def broken_chat_fs_nodes)
  have r: "read_text broken_chat_fs (joinpath OLD_SRC ''model/Chat.java'')
       = Inl (ReadError ''invalid start byte'')"
    by (simp add: read_text_def broken_chat_fs_nodes)
  note c = C6_failure_is_contained_and_summary_printed[of Map.empty broken_chat_fs
      "take 33 FILE_MAPPINGS" "''model/Chat.java''" "''entity/chat/Chat.java''" _
      "ReadError ''invalid start byte''"]
  from c n have 1: "main_raising Map.empty broken_chat_fs = Inr (main broken_chat_fs)" by blast
  from c table_split_chat e r have 2:
    "process_all FILE_MAPPINGS (initial_run broken_chat_fs) =
      process_all
        ([(''model/ChatParticipant.java'', ''entity/chat/ChatParticipant.java''),
          (''model/Message.java'', ''entity/chat/Message.java''),
          (''model/MessageStatus.java'', ''entity/chat/MessageStatus.java''),
          (''model/UserStatus.java'', ''entity/chat/UserStatus.java'')]
         @ (''model/chat/Chat.java'', ''entity/chat/Chat.java'') # drop 39 FILE_MAPPINGS)
        ((process_all (take 33 FILE_MAPPINGS) (initial_run broken_chat_fs))
           \<lparr>fail_count := fail_count (process_all (take 33 FILE_MAPPINGS) (initial_run broken_chat_fs)) + 1,
            printed := printed (process_all (take 33 FILE_MAPPINGS) (initial_run broken_chat_fs))
                       @ [FailedLine (path_name (joinpath OLD_SRC ''model/Chat.java''))
                            (ReadError ''invalid start byte'')]\<rparr>)"
    and 3: "0 < fail_count (main broken_chat_fs)" by blast+
  from c 3 have 4: "printed (main broken_chat_fs) =
        printed (migrate_tests (process_all FILE_MAPPINGS (initial_run broken_chat_fs)))
        @ [BlankRule, Text ''Migration completed!'', SuccessLine (success_count (main broken_chat_fs)),
           FailCountLine (fail_count (main broken_chat_fs)), Rule, NextSteps]"
    by simp
  from n table_split_chat e r 1 2 3 4 show ?thesis by blast
qed

section \<open>A second run (C7)\<close>

text \<open>
  C7.  Running the tool on the file system that a first run left behind gives the very
  same result again: the same disk, so every destination holds the content the first run
  wrote, the same counters and the same lines.
\<close>

theorem C7_second_run_changes_nothing: "main (disk (main F)) = main F"
proof (rule run.equality)
  have "disk (main (disk (main F))) = fold put_file (all_writes (disk (main F))) (disk (main F))"
    by (rule disk_main)
  also have "\<dots> = fold put_file (all_writes F) (fold put_file (all_writes F) F)"
    using all_writes_same[OF same_sources_main, of F] by (simp add: disk_main)
  also have "\<dots> = disk (main F)"
    by (simp add: fold_put_file_twice disk_main)
  finally show "disk (main (disk (main F))) = disk (main F)" .
qed (simp_all add: main_counts_same[OF same_sources_main])

theorem C7_second_run_changes_nothing_witness:
  "main (disk (main chat_fs)) = main chat_fs"
  by (rule C7_second_run_changes_nothing)

section \<open>The old trees are left alone (C9)\<close>

text \<open>
  C9.  After a run every path under the old source root or the old test root holds what
  it held before: nothing there is written, removed or created.
\<close>

theorem C9_old_files_untouched:
  assumes "prefix OLD_SRC p \<or> prefix OLD_TEST p"
  shows "nodes (disk (main F)) p = nodes F p"
  using same_sources_old[OF same_sources_main assms] .

theorem C9_old_files_untouched_witness:
  "(prefix OLD_SRC (joinpath OLD_SRC ''model/Chat.java'')
      \<or> prefix OLD_TEST (joinpath OLD_SRC ''model/Chat.java''))
   \<and> nodes (disk (main chat_fs)) (joinpath OLD_SRC ''model/Chat.java'')
       = nodes chat_fs (joinpath OLD_SRC ''model/Chat.java'')
   \<and> nodes chat_fs (joinpath OLD_SRC ''model/Chat.java'')
       = Some (File (str ''package com.CarSelling.Sell.the.old.Car.model;''))"
proof -
  have p: "prefix OLD_SRC (joinpath OLD_SRC ''model/Chat.java'')
      \<or> prefix OLD_TEST (joinpath OLD_SRC ''model/Chat.java'')"
    by simp
  from C9_old_files_untouched[OF p, of chat_fs] p chat_fs_nodes(1)
  show ?thesis by blast
qed

section \<open>Two entries with one destination (C10)\<close>

text \<open>
  C10, as stated, fails twice.  On a disk where \<open>model/Chat.java\<close> and
  \<open>model/chat/Chat.java\<close> both exist and the first cannot be decoded, the two entries
  have the same new path, but the first migration fails: its failure line is printed and
  the failure counter is positive.  And the two chat repository entries, which the claim
  gives as an example, do not have the same new path.
\<close>

theorem C10_first_of_two_can_fail:
  "(''model/Chat.java'', ''entity/chat/Chat.java'') \<in> set FILE_MAPPINGS
   \<and> (''model/chat/Chat.java'', ''entity/chat/Chat.java'') \<in> set FILE_MAPPINGS
   \<and> exists_path broken_chat_fs (joinpath OLD_SRC ''model/Chat.java'')
   \<and> exists_path broken_chat_fs (joinpath OLD_SRC ''model/chat/Chat.java'')
   \<and> FailedLine ''Chat.java'' (ReadError ''invalid start byte'')
       \<in> set (printed (main broken_chat_fs))
   \<and> 0 < fail_count (main broken_chat_fs)
   \<and> (''repository/ChatRepository.java'', ''repository/ChatRepository.java'') \<in> set FILE_MAPPINGS
   \<and> (''repository/chat/ChatRepository.java'', ''repository/chat/ChatRepository.java'')
       \<in> set FILE_MAPPINGS
   \<and> ''repository/ChatRepository.java'' \<noteq> ''repository/chat/ChatRepository.java''"
proof -
  have m: "(''model/Chat.java'', ''entity/chat/Chat.java'') \<in> set FILE_MAPPINGS"
    "(''model/chat/Chat.java'', ''entity/chat/Chat.java'') \<in> set FILE_MAPPINGS"
    "(''repository/ChatRepository.java'', ''repository/ChatRepository.java'') \<in> set FILE_MAPPINGS"
    "(''repository/chat/ChatRepository.java'', ''repository/chat/ChatRepository.java'')
       \<in> set FILE_MAPPINGS"
    unfolding FILE_MAPPINGS_def by ((rule in_set_hd | rule in_set_tl)+)+
  have e: "exists_path broken_chat_fs (joinpath OLD_SRC ''model/Chat.java'')"
    "exists_path broken_chat_fs (joinpath OLD_SRC ''model/chat/Chat.java'')"
    by (simp_all add: exists_path_def broken_chat_fs_nodes)
  have x: "migration_error broken_chat_fs (joinpath OLD_SRC ''model/Chat.java'')
      (joinpath NEW_SRC ''entity/chat/Chat.java'') = Some (ReadError ''invalid start byte'')"
    by (simp add: migration_error_def broken_chat_fs_nodes)
  have "FailedLine ''Chat.java'' (ReadError ''invalid start byte'')
      \<in> set (entry_lines broken_chat_fs (''model/Chat.java'', ''entity/chat/Chat.java''))"
    using e(1) x by (simp add: entry_lines_def chat_names)
  with m(1) have l: "FailedLine ''Chat.java'' (ReadError ''invalid start byte'')
      \<in> set (printed (main broken_chat_fs))"
    by (rule entry_lines_printed)
  have "entry_fails broken_chat_fs (''model/Chat.java'', ''entity/chat/Chat.java'')"
    using e(1) x by (simp add: entry_fails_def)
  with m(1) have f: "0 < fail_count (main broken_chat_fs)"
    by (rule entry_fails_counted)
  have n: "''repository/ChatRepository.java'' \<noteq> ''repository/chat/ChatRepository.java''"
    by simp
  from m e l f n show ?thesis by blast
qed

text \<open>
  C10, amended.  Two entries with the same new relative path, the second later in the
  table, whose source files can both be read, with a destination that can be written and
  that no entry after the second one has: each of the two steps writes the destination,
  adds one to the success counter and prints its "Migrated" line, and after the run the
  destination holds the rewritten content of the second, later entry.  The five pairs of
  chat entities are such entries; the chat repository entries are not.
\<close>

theorem C10_later_entry_wins:
  assumes "FILE_MAPPINGS = pre @ (old1, new_rel_path) # mid @ (old2, new_rel_path) # post"
    and "read_text F (joinpath OLD_SRC old1) = Inr c1"
    and "read_text F (joinpath OLD_SRC old2) = Inr c2"
    and "deny_write F (joinpath NEW_SRC new_rel_path) = None"
    and "joinpath NEW_SRC new_rel_path \<notin> set (map (\<lambda>e. joinpath NEW_SRC (snd e)) post)"
  shows "(let new_file = joinpath NEW_SRC new_rel_path;
            st1 = process_all pre (initial_run F);
            st2 = st1\<lparr>disk := (disk st1)\<lparr>nodes := (nodes (disk st1))
                            (new_file \<mapsto> File (update_package_and_imports c1 new_file))\<rparr>,
                     success_count := success_count st1 + 1,
                     printed := printed st1 @ [MigratedLine (path_name (joinpath OLD_SRC old1)) new_file]\<rparr>;
            st3 = process_all mid st2;
            st4 = st3\<lparr>disk := (disk st3)\<lparr>nodes := (nodes (disk st3))
                            (new_file \<mapsto> File (update_package_and_imports c2 new_file))\<rparr>,
                     success_count := success_count st3 + 1,
                     printed := printed st3 @ [MigratedLine (path_name (joinpath OLD_SRC old2)) new_file]\<rparr>
         in process_all FILE_MAPPINGS (initial_run F) = process_all post st4)
    \<and> nodes (disk (main F)) (joinpath NEW_SRC new_rel_path)
        = Some (File (update_package_and_imports c2 (joinpath NEW_SRC new_rel_path)))"
proof
  let ?new = "joinpath NEW_SRC new_rel_path"
  let ?st1 = "process_all pre (initial_run F)"
  let ?st2 = "?st1\<lparr>disk := put_file (?new, update_package_and_imports c1 ?new) (disk ?st1),
                     success_count := success_count ?st1 + 1,
                     printed := printed ?st1 @ [MigratedLine (path_name (joinpath OLD_SRC old1)) ?new]\<rparr>"
  let ?st3 = "process_all mid ?st2"
  let ?st4 = "?st3\<lparr>disk := put_file (?new, update_package_and_imports c2 ?new) (disk ?st3),
                     success_count := success_count ?st3 + 1,
                     printed := printed ?st3 @ [MigratedLine (path_name (joinpath OLD_SRC old2)) ?new]\<rparr>"
  have n1: "nodes F (joinpath OLD_SRC old1) = Some (File c1)"
    and n2: "nodes F (joinpath OLD_SRC old2) = Some (File c2)"
    using assms(2,3) by (simp_all add: read_text_iff)
  note f1 = write_of_file[OF n1 assms(4)]
  note f2 = write_of_file[OF n2 assms(4)]
  have s1: "same_sources F (disk ?st1)" by (rule same_sources_pre)
  have e1: "process_entry (old1, new_rel_path) ?st1 = ?st2"
    using process_entry_migrates[OF s1, where e = "(old1, new_rel_path)"] f1 by simp
  have s2: "same_sources F (disk ?st2)"
    using same_sources_put[OF s1, of "(?new, update_package_and_imports c1 ?new)"]
    by (simp add: in_new_tree_def)
  have s3: "same_sources F (disk ?st3)"
    using s2 by (rule same_sources_process_all)
  have e2: "process_entry (old2, new_rel_path) ?st3 = ?st4"
    using process_entry_migrates[OF s3, where e = "(old2, new_rel_path)"] f2 by simp
  have "process_all FILE_MAPPINGS (initial_run F) = process_all post ?st4"
    unfolding assms(1) using e1 e2 by (simp add: process_all_def)
  then show "(let new_file = joinpath NEW_SRC new_rel_path;
            st1 = process_all pre (initial_run F);
            st2 = st1\<lparr>disk := (disk st1)\<lparr>nodes := (nodes (disk st1))
                            (new_file \<mapsto> File (update_package_and_imports c1 new_file))\<rparr>,
                     success_count := success_count st1 + 1,
                     printed := printed st1 @ [MigratedLine (path_name (joinpath OLD_SRC old1)) new_file]\<rparr>;
            st3 = process_all mid st2;
            st4 = st3\<lparr>disk := (disk st3)\<lparr>nodes := (nodes (disk st3))
                            (new_file \<mapsto> File (update_package_and_imports c2 new_file))\<rparr>,
                     success_count := success_count st3 + 1,
                     printed := printed st3 @ [MigratedLine (path_name (joinpath OLD_SRC old2)) new_file]\<rparr>
         in process_all FILE_MAPPINGS (initial_run F) = process_all post st4)"
    by (simp add: Let_def put_file_def)
next
  let ?new = "joinpath NEW_SRC new_rel_path"
  let ?t = "write_of F (joinpath OLD_TEST ''SellTheOldCarApplicationTests.java'')
         (joinpath NEW_TEST ''OldCarApplicationTests.java'')"
  have n2: "nodes F (joinpath OLD_SRC old2) = Some (File c2)"
    using assms(3) by (simp add: read_text_iff)
  note f2 = write_of_file[OF n2 assms(4)]
  have a: "all_writes F =
      (writes F pre @ write_of F (joinpath OLD_SRC old1) ?new @ writes F mid)
      @ (?new, update_package_and_imports c2 ?new) # (writes F post @ ?t)"
    by (simp add: all_writes_def assms(1) writes_append writes_Cons f2)
  have "?new \<notin> fst ` set (writes F post)"
    using writes_keys[of F post] assms(5) by auto
  moreover have "?new \<notin> fst ` set ?t"
  proof
    assume "?new \<in> fst ` set ?t"
    then have "?new = joinpath NEW_TEST ''OldCarApplicationTests.java''"
      by (auto dest!: write_of_new)
    then have "prefix NEW_TEST ?new" by simp
    moreover have "prefix NEW_SRC ?new" by simp
    ultimately show False
      using new_roots_incomparable by (metis prefix_same_cases)
  qed
  ultimately have "fst (?new, update_package_and_imports c2 ?new) \<notin> fst ` set (writes F post @ ?t)"
    by auto
  from nodes_fold_put_last[OF this]
  show "nodes (disk (main F)) ?new = Some (File (update_package_and_imports c2 ?new))"
    by (simp add: disk_main a)
qed

theorem C10_later_entry_wins_witness:
  "FILE_MAPPINGS = take 33 FILE_MAPPINGS @ (''model/Chat.java'', ''entity/chat/Chat.java'') #
    [(''model/ChatParticipant.java'', ''entity/chat/ChatParticipant.java''),
     (''model/Message.java'', ''entity/chat/Message.java''),
     (''model/MessageStatus.java'', ''entity/chat/MessageStatus.java''),
     (''model/UserStatus.java'', ''entity/chat/UserStatus.java'')]
    @ (''model/chat/Chat.java'', ''entity/chat/Chat.java'') # drop 39 FILE_MAPPINGS
   \<and> read_text chat_fs (joinpath OLD_SRC ''model/Chat.java'')
       = Inr (str ''package com.CarSelling.Sell.the.old.Car.model;'')
   \<and> read_text chat_fs (joinpath OLD_SRC ''model/chat/Chat.java'')
       = Inr (str ''package com.CarSelling.Sell.the.old.Car.model.chat;'' @ [10]
              @ str ''import com.CarSelling.Sell.the.old.Car.model.User;'')
   \<and> deny_write chat_fs (joinpath NEW_SRC ''entity/chat/Chat.java'') = None
   \<and> joinpath NEW_SRC ''entity/chat/Chat.java''
       \<notin> set (map (\<lambda>e. joinpath NEW_SRC (snd e)) (drop 39 FILE_MAPPINGS))
   \<and> nodes (disk (main chat_fs)) (joinpath NEW_SRC ''entity/chat/Chat.java'')
       = Some (File (update_package_and_imports
            (str ''package com.CarSelling.Sell.the.old.Car.model.chat;'' @ [10]
              @ str ''import com.CarSelling.Sell.the.old.Car.model.User;'')
            (joinpath NEW_SRC ''entity/chat/Chat.java'')))"
proof -
  have r1: "read_text chat_fs (joinpath OLD_SRC ''model/Chat.java'')
       = Inr (str ''package com.CarSelling.Sell.the.old.Car.model;'')"
    by (simp add: read_text_def chat_fs_def joinpath_def)
  have r2: "read_text chat_fs (joinpath OLD_SRC ''model/chat/Chat.java'')
       = Inr (str ''package com.CarSelling.Sell.the.old.Car.model.chat;'' @ [10]
              @ str ''import com.CarSelling.Sell.the.old.Car.model.User;'')"
    by (simp add: read_text_def chat_fs_def joinpath_def)
  have w: "deny_write chat_fs (joinpath NEW_SRC ''entity/chat/Chat.java'') = None"
    by (simp add: chat_fs_def)
  from C10_later_entry_wins[OF table_split_chat r1 r2 w chat_last] table_split_chat r1 r2 w chat_last
  show ?thesis by blast
qed

end
